theory Spec2Isabelle
  imports Main
begin

section \<open>Python strings as the source uses them\<close>

text \<open>
  A line of a structure file is a Python \<open>str\<close>; it is modelled as a \<open>string\<close>
  (a list of characters, code points below 256). The source uses \<open>startswith\<close>,
  the substring test \<open>in\<close>, slices \<open>s[a:b]\<close> (which never raise), the index
  \<open>s[i]\<close> (which raises \<open>IndexError\<close> out of range), and \<open>lstrip\<close>/\<open>strip\<close>.
\<close>

definition whitespace :: "char list" where
  "whitespace = [CHR 0x09, CHR 0x0A, CHR 0x0B, CHR 0x0C, CHR 0x0D,
                 CHR 0x1C, CHR 0x1D, CHR 0x1E, CHR 0x1F, CHR 0x20, CHR 0x85, CHR 0xA0]"

definition is_space :: "char \<Rightarrow> bool" where
  "is_space c = (c \<in> set whitespace)"

definition lstrip :: "string \<Rightarrow> string" where
  "lstrip s = dropWhile is_space s"

definition rstrip :: "string \<Rightarrow> string" where
  "rstrip s = rev (dropWhile is_space (rev s))"

definition strip :: "string \<Rightarrow> string" where
  "strip s = rstrip (lstrip s)"

definition startswith :: "string \<Rightarrow> string \<Rightarrow> bool" where
  "startswith s p = (take (length p) s = p)"

text \<open>\<open>contains sub s\<close> is Python's \<open>sub in s\<close>.\<close>

fun contains :: "string \<Rightarrow> string \<Rightarrow> bool" where
  "contains sub [] = (sub = [])"
| "contains sub (c # s) = (startswith (c # s) sub \<or> contains sub s)"

text \<open>\<open>slice s a b\<close> is \<open>s[a:b]\<close> for literal bounds \<open>0 \<le> a\<close>, \<open>0 \<le> b\<close>; it is
  empty when \<open>b \<le> a\<close> and truncated at the end of \<open>s\<close>.\<close>

definition slice :: "'a list \<Rightarrow> nat \<Rightarrow> nat \<Rightarrow> 'a list" where
  "slice s a b = take (b - a) (drop a s)"

datatype error =
    UnsupportedFormat string   \<comment> \<open>\<open>die\<close>: the file is unsupported format\<close>
  | CorruptedFile string       \<comment> \<open>\<open>die\<close>: corrupted or incomplete MODEL\<close>
  | IndexError
  | KeyError
  | ValueError
  | TypeError
  | CollaboratorError

section \<open>\<open>load_atom_models\<close>\<close>

text \<open>
  The indices of the lines that start with \<open>MODEL\<close> and with \<open>ENDMDL\<close>
  (source lines 33 and 34).
\<close>

definition MODEL :: "string list \<Rightarrow> nat list" where
  "MODEL lines = filter (\<lambda>i. startswith (lines ! i) ''MODEL'') [0..<length lines]"

definition ENDMDL :: "string list \<Rightarrow> nat list" where
  "ENDMDL lines = filter (\<lambda>i. startswith (lines ! i) ''ENDMDL'') [0..<length lines]"

definition is_atom_record :: "string \<Rightarrow> bool" where
  "is_atom_record line = (startswith line ''ATOM'' \<or> startswith line ''HETATM'')"

text \<open>
  The condition of the comprehension of the single-model branch (source lines 50 to 53),
  evaluated left to right with Python's short-circuit \<open>and\<close>: \<open>line[16]\<close> is reached
  only when \<open>'OXT'\<close> does not occur in the line, and raises on a line of at most 16
  characters.
\<close>

definition keep_single :: "string \<Rightarrow> error + bool" where
  "keep_single line =
     (if contains ''OXT'' line then Inr False
      else if length line \<le> 16 then Inl IndexError
      else Inr ((line ! 16 = CHR '' '' \<or> line ! 16 = CHR ''A'')
                \<and> lstrip (slice line 76 78) \<noteq> ''H''
                \<and> slice line 17 20 \<noteq> ''HOH''))"

text \<open>The condition of the multi-model branch (source lines 62 to 66): the record
  type is tested first.\<close>

definition keep_multi :: "string \<Rightarrow> error + bool" where
  "keep_multi line = (if is_atom_record line then keep_single line else Inr False)"

text \<open>A list comprehension whose condition may raise: the first error ends it.\<close>

fun filter_err :: "('a \<Rightarrow> error + bool) \<Rightarrow> 'a list \<Rightarrow> error + 'a list" where
  "filter_err p [] = Inr []"
| "filter_err p (x # xs) =
     (case p x of
        Inl e \<Rightarrow> Inl e
      | Inr b \<Rightarrow> (case filter_err p xs of
                    Inl e \<Rightarrow> Inl e
                  | Inr ys \<Rightarrow> Inr (if b then x # ys else ys)))"

text \<open>The value of \<open>MDL\<close>: a list in the single-model branch, a dict (kept in
  insertion order) from \<open>i+1\<close> to \<open>lines[MODEL[i] : ENDMDL[i]]\<close> otherwise.\<close>

datatype mdl = MDL_list "string list" | MDL_dict "(int \<times> string list) list"

definition MDL_blocks :: "string list \<Rightarrow> (int \<times> string list) list" where
  "MDL_blocks lines =
     map (\<lambda>i. (int i + 1, slice lines (MODEL lines ! i) (ENDMDL lines ! i)))
         [0..<length (MODEL lines)]"

text \<open>The loop over the dict (source lines 58 to 68).\<close>

fun filter_blocks :: "(int \<times> string list) list \<Rightarrow> error + (int \<times> string list) list" where
  "filter_blocks [] = Inr []"
| "filter_blocks ((idx, block) # rest) =
     (case filter_err keep_multi block of
        Inl e \<Rightarrow> Inl e
      | Inr a_model \<Rightarrow> (case filter_blocks rest of
                         Inl e \<Rightarrow> Inl e
                       | Inr a_models \<Rightarrow> Inr ((idx, a_model) # a_models)))"

text \<open>
  Modelled from the spec: \<open>die\<close> (module \<open>utils\<close>, not among the sources) ends the
  processing of the file with the error that its message names; the spec calls the two
  errors \<open>UnsupportedFormatError\<close> and \<open>CorruptedFileError\<close>.

  The file is given as the text lines that reading it yields (\<open>None\<close> when it cannot be
  read as text, with or without decompression). The first line is read by \<open>readline\<close>
  and dropped; \<open>lines\<close> are the lines after it.
\<close>

definition choose_MDL :: "string \<Rightarrow> string list \<Rightarrow> error + mdl" where
  "choose_MDL name lines =
     (if MODEL lines = [] \<and> ENDMDL lines = [] then
        Inr (MDL_list (filter is_atom_record lines))
      else if MODEL lines \<noteq> [] \<and> length (MODEL lines) = length (ENDMDL lines) then
        Inr (MDL_dict (MDL_blocks lines))
      else Inl (CorruptedFile name))"

definition extract_models :: "string \<Rightarrow> string list \<Rightarrow> error + (int \<times> string list) list" where
  "extract_models name lines =
     (case choose_MDL name lines of
        Inl e \<Rightarrow> Inl e
      | Inr (MDL_list ls) \<Rightarrow>
          (case filter_err keep_single ls of
             Inl e \<Rightarrow> Inl e
           | Inr a_model \<Rightarrow> Inr [(- 1, a_model)])
      | Inr (MDL_dict blocks) \<Rightarrow> filter_blocks blocks)"

definition load_atom_models ::
  "string \<Rightarrow> string list option \<Rightarrow> error + (int \<times> string list) list" where
  "load_atom_models name file =
     (case file of
        None \<Rightarrow> Inl (UnsupportedFormat name)
      | Some file_lines \<Rightarrow> extract_models name (drop 1 file_lines))"

text \<open>The lines of all the blocks of a multi-model file, markers included as the
  slices include them.\<close>

definition block_lines :: "string list \<Rightarrow> string list" where
  "block_lines lines = concat (map snd (MDL_blocks lines))"

section \<open>\<open>parse_atom_model\<close>\<close>

subsection \<open>\<open>int(...)\<close> and \<open>str(...)\<close> on the residue number field\<close>

text \<open>
  Python's \<open>int\<close> of a string: surrounding whitespace is ignored, a sign may lead,
  and the digits may be separated by single underscores. Anything else raises
  \<open>ValueError\<close> (here \<open>None\<close>). The whitespace that \<open>int\<close> ignores is not that of
  \<open>str.strip\<close>: the separators \<open>0x1C\<close> to \<open>0x1F\<close> are not part of it.
\<close>

definition int_whitespace :: "char list" where
  "int_whitespace = [CHR 0x09, CHR 0x0A, CHR 0x0B, CHR 0x0C, CHR 0x0D, CHR 0x20,
                     CHR 0x85, CHR 0xA0]"

definition int_strip :: "string \<Rightarrow> string" where
  "int_strip s =
     rev (dropWhile (\<lambda>c. c \<in> set int_whitespace)
            (rev (dropWhile (\<lambda>c. c \<in> set int_whitespace) s)))"

definition is_digit :: "char \<Rightarrow> bool" where
  "is_digit c = (c \<in> set ''0123456789'')"

definition digit_val :: "char \<Rightarrow> nat" where
  "digit_val c = of_char c - 48"

fun digits_ok :: "string \<Rightarrow> bool" where
  "digits_ok [] = False"
| "digits_ok [c] = is_digit c"
| "digits_ok (c # d # r) =
     (is_digit c \<and> (if d = CHR ''_'' then digits_ok r else digits_ok (d # r)))"

definition digits_val :: "string \<Rightarrow> nat" where
  "digits_val ds = foldl (\<lambda>a c. 10 * a + digit_val c) 0 (filter (\<lambda>c. c \<noteq> CHR ''_'') ds)"

definition py_int :: "string \<Rightarrow> int option" where
  "py_int s =
     (case int_strip s of
        [] \<Rightarrow> None
      | c # r \<Rightarrow>
          if c = CHR ''-'' then (if digits_ok r then Some (- int (digits_val r)) else None)
          else if c = CHR ''+'' then (if digits_ok r then Some (int (digits_val r)) else None)
          else if digits_ok (c # r) then Some (int (digits_val (c # r))) else None)"

function digits_of :: "nat \<Rightarrow> string" where
  "digits_of n =
     (if n < 10 then [char_of (48 + n)]
      else digits_of (n div 10) @ [char_of (48 + n mod 10)])"
  by pat_completeness auto
termination
  by (relation "measure id") auto

definition str_int :: "int \<Rightarrow> string" where
  "str_int i = (if i < 0 then CHR ''-'' # digits_of (nat (- i)) else digits_of (nat i))"

subsection \<open>The constants of \<open>PDB_constants\<close>\<close>

text \<open>
  The module \<open>PDB_constants\<close> is not among the sources; its tables are parameters.
  \<open>Radius\<close> maps a residue name (or \<open>UNDEF\<close>) to a sub-table, which maps an atom
  name or an element to the four properties that the source reads as \<open>__[0]\<close> to
  \<open>__[3]\<close>: radius, type tag, baseline surface, baseline volume. \<open>AA\<close> and \<open>NT\<close>
  map residue names to their abbreviations. Numbers are of a type \<open>'n\<close> with an
  addition (Python floats in the source); \<open>py_float\<close> is Python's \<open>float\<close> of a
  string, \<open>None\<close> where it raises \<open>ValueError\<close>.
\<close>

type_synonym 'n props = "'n \<times> string \<times> 'n \<times> 'n"

record 'n constants =
  Radius :: "string \<rightharpoonup> (string \<rightharpoonup> 'n props)"
  AA :: "string \<rightharpoonup> string"
  NT :: "string \<rightharpoonup> string"
  Radius_H2O :: 'n
  py_float :: "string \<Rightarrow> 'n option"

subsection \<open>The fields of an atom line\<close>

definition Res_of :: "string \<Rightarrow> string" where
  "Res_of atom = lstrip (slice atom 17 20)"

definition Ana_of :: "string \<Rightarrow> string" where
  "Ana_of atom = strip (slice atom 12 16)"

definition Ele_of :: "string \<Rightarrow> string" where
  "Ele_of atom = lstrip (slice atom 76 78)"

text \<open>
  An atomic site, as the fixed columns give it: atom name, residue name, chain
  identifier and residue number fields. The alternate-location indicator is
  column 16.
\<close>

definition site_of :: "string \<Rightarrow> string \<times> string \<times> string \<times> string" where
  "site_of line = (slice line 12 16, slice line 17 20, slice line 21 22, slice line 22 26)"

subsection \<open>Property resolution (source lines 102 to 122)\<close>

text \<open>
  \<open>resolve\<close> gives the property tuples that one pass through the branch appends to the
  columns \<open>R\<close>, \<open>Type\<close>, \<open>Surf\<close> and \<open>Volu\<close>, in order: the two tests under
  \<open>Res in Radius\<close> are independent \<open>if\<close>s with no \<open>else\<close>, so none, one or two
  tuples are appended there. \<open>Ana[0]\<close> raises \<open>IndexError\<close> on an empty atom name,
  and a missing key raises \<open>KeyError\<close>.
\<close>

definition lookup :: "('k \<rightharpoonup> 'v) \<Rightarrow> 'k \<Rightarrow> error + 'v" where
  "lookup m k = (case m k of None \<Rightarrow> Inl KeyError | Some v \<Rightarrow> Inr v)"

definition resolve_AA :: "'n constants \<Rightarrow> (string \<rightharpoonup> 'n props) \<Rightarrow> string \<Rightarrow> string \<Rightarrow> 'n props list" where
  "resolve_AA C sub Res Ana =
     (if Res \<in> dom (AA C) then (case sub Ana of None \<Rightarrow> [] | Some p \<Rightarrow> [p]) else [])"

definition resolve_NT ::
  "'n constants \<Rightarrow> (string \<rightharpoonup> 'n props) \<Rightarrow> string \<Rightarrow> string \<Rightarrow> string \<Rightarrow> error + 'n props list" where
  "resolve_NT C sub Res Ana Ele =
     (if Res \<in> dom (NT C) then
        (case Ana of
           [] \<Rightarrow> Inl IndexError
         | c # _ \<Rightarrow> if [c] \<in> dom sub
                    then (case lookup sub Ele of Inl e \<Rightarrow> Inl e | Inr p \<Rightarrow> Inr [p])
                    else Inr [])
      else Inr [])"

definition resolve :: "'n constants \<Rightarrow> string \<Rightarrow> string \<Rightarrow> string \<Rightarrow> error + 'n props list" where
  "resolve C Res Ana Ele =
     (case Radius C Res of
        Some sub \<Rightarrow>
          (case resolve_NT C sub Res Ana Ele of
             Inl e \<Rightarrow> Inl e
           | Inr ps \<Rightarrow> Inr (resolve_AA C sub Res Ana @ ps))
      | None \<Rightarrow>
          (case lookup (Radius C) ''UNDEF'' of
             Inl e \<Rightarrow> Inl e
           | Inr undef \<Rightarrow> (case lookup undef Ele of Inl e \<Rightarrow> Inl e | Inr p \<Rightarrow> Inr [p])))"

subsection \<open>The loop over the atom lines (source lines 88 to 122)\<close>

text \<open>The dictionary \<open>atom_info\<close>: one list per column.\<close>

record 'n atom_info =
  c_Chain :: "string list"
  c_ResName :: "string list"
  c_Atom :: "string list"
  c_x :: "'n list"
  c_y :: "'n list"
  c_z :: "'n list"
  c_R :: "'n list"
  c_Type :: "string list"
  c_Surf :: "'n list"
  c_Volu :: "'n list"

definition empty_info :: "'n atom_info" where
  "empty_info = \<lparr>c_Chain = [], c_ResName = [], c_Atom = [], c_x = [], c_y = [], c_z = [],
                 c_R = [], c_Type = [], c_Surf = [], c_Volu = []\<rparr>"

text \<open>
  One iteration. \<open>int(atom[22:26])\<close> is evaluated before \<open>atom[21]\<close>, which raises
  \<open>IndexError\<close> on a line of at most 21 characters; the coordinates follow, then the
  resolution.
\<close>

definition add_atom :: "'n constants \<Rightarrow> string \<Rightarrow> 'n atom_info \<Rightarrow> error + 'n atom_info" where
  "add_atom C atom info =
     (case py_int (slice atom 22 26) of
        None \<Rightarrow> Inl ValueError
      | Some n \<Rightarrow>
          if length atom \<le> 21 then Inl IndexError
          else
            (case py_float C (slice atom 30 38) of
               None \<Rightarrow> Inl ValueError
             | Some x \<Rightarrow>
            (case py_float C (slice atom 38 46) of
               None \<Rightarrow> Inl ValueError
             | Some y \<Rightarrow>
            (case py_float C (slice atom 46 54) of
               None \<Rightarrow> Inl ValueError
             | Some z \<Rightarrow>
            (case resolve C (Res_of atom) (Ana_of atom) (Ele_of atom) of
               Inl e \<Rightarrow> Inl e
             | Inr ps \<Rightarrow>
                 Inr \<lparr>c_Chain = c_Chain info @ [(atom ! 21) # str_int n],
                      c_ResName = c_ResName info @ [Res_of atom],
                      c_Atom = c_Atom info @ [Ana_of atom],
                      c_x = c_x info @ [x],
                      c_y = c_y info @ [y],
                      c_z = c_z info @ [z],
                      c_R = c_R info @ map fst ps,
                      c_Type = c_Type info @ map (fst \<circ> snd) ps,
                      c_Surf = c_Surf info @ map (fst \<circ> snd \<circ> snd) ps,
                      c_Volu = c_Volu info @ map (snd \<circ> snd \<circ> snd) ps\<rparr>)))))"

fun add_atoms :: "'n constants \<Rightarrow> string list \<Rightarrow> 'n atom_info \<Rightarrow> error + 'n atom_info" where
  "add_atoms C [] info = Inr info"
| "add_atoms C (atom # rest) info =
     (case add_atom C atom info of
        Inl e \<Rightarrow> Inl e
      | Inr info' \<Rightarrow> add_atoms C rest info')"

subsection \<open>The data frame and its partitions (source lines 124 to 168)\<close>

text \<open>
  \<open>DataFrame.from_dict\<close> raises \<open>ValueError\<close> unless all the columns have the same
  length. The frame is kept by columns, as \<open>atom_info\<close> is.
\<close>

definition same_length :: "'n atom_info \<Rightarrow> bool" where
  "same_length info =
     (let n = length (c_Chain info) in
        length (c_ResName info) = n \<and> length (c_Atom info) = n \<and> length (c_x info) = n
        \<and> length (c_y info) = n \<and> length (c_z info) = n \<and> length (c_R info) = n
        \<and> length (c_Type info) = n \<and> length (c_Surf info) = n \<and> length (c_Volu info) = n)"

definition from_dict :: "'n atom_info \<Rightarrow> error + 'n atom_info" where
  "from_dict info = (if same_length info then Inr info else Inl ValueError)"

text \<open>\<open>atom_df['R'] += Radius_H2O\<close>. The conversion of the numeric columns to
  \<open>DTYPE\<close> that follows changes the representation of the numbers, not the table.\<close>

definition add_Radius_H2O :: "'n::plus constants \<Rightarrow> 'n atom_info \<Rightarrow> 'n atom_info" where
  "add_Radius_H2O C df = df\<lparr>c_R := map (\<lambda>r. r + Radius_H2O C) (c_R df)\<rparr>"

text \<open>Row selection by a boolean mask, \<open>atom_df[mask]\<close>.\<close>

definition select :: "bool list \<Rightarrow> 'a list \<Rightarrow> 'a list" where
  "select msk xs = map snd (filter fst (zip msk xs))"

definition take_rows :: "bool list \<Rightarrow> 'n atom_info \<Rightarrow> 'n atom_info" where
  "take_rows msk df =
     \<lparr>c_Chain = select msk (c_Chain df), c_ResName = select msk (c_ResName df),
      c_Atom = select msk (c_Atom df), c_x = select msk (c_x df),
      c_y = select msk (c_y df), c_z = select msk (c_z df), c_R = select msk (c_R df),
      c_Type = select msk (c_Type df), c_Surf = select msk (c_Surf df),
      c_Volu = select msk (c_Volu df)\<rparr>"

definition isin :: "(string \<rightharpoonup> string) \<Rightarrow> string list \<Rightarrow> bool list" where
  "isin names col = map (\<lambda>r. r \<in> dom names) col"

text \<open>\<open>ResName.map(AA)\<close>: a name outside the table would become NaN; the rows
  were selected by \<open>isin\<close>, so none is.\<close>

definition map_names :: "(string \<rightharpoonup> string) \<Rightarrow> string list \<Rightarrow> string list" where
  "map_names names col = map (\<lambda>r. case names r of Some a \<Rightarrow> a | None \<Rightarrow> ''NaN'') col"

text \<open>A table as the collaborators receive it: its columns in order, each a name
  and its cells.\<close>

datatype 'n cell = Str string | Num 'n

type_synonym 'n frame = "(string \<times> 'n cell list) list"

text \<open>The column \<open>Residue\<close> joins \<open>Chain\<close> and \<open>ResName\<close> with the separator; the
  result keeps the nine columns of source lines 150 to 152.\<close>

definition final_frame :: "string \<Rightarrow> 'n atom_info \<Rightarrow> 'n frame" where
  "final_frame sep tmp =
     [(''Residue'', map Str (map2 (\<lambda>c r. c @ sep @ r) (c_Chain tmp) (c_ResName tmp))),
      (''Atom'', map Str (c_Atom tmp)),
      (''x'', map Num (c_x tmp)),
      (''y'', map Num (c_y tmp)),
      (''z'', map Num (c_z tmp)),
      (''R'', map Num (c_R tmp)),
      (''Type'', map Str (c_Type tmp)),
      (''Surf'', map Num (c_Surf tmp)),
      (''Volu'', map Num (c_Volu tmp))]"

definition partitions :: "'n constants \<Rightarrow> 'n atom_info \<Rightarrow> 'n frame \<times> 'n frame \<times> 'n frame" where
  "partitions C atom_df =
     (let in_AA = isin (AA C) (c_ResName atom_df);
          in_NT = isin (NT C) (c_ResName atom_df);
          aa = take_rows in_AA atom_df;
          nt = take_rows in_NT atom_df;
          ns = take_rows (map2 (\<lambda>a n. \<not> a \<and> \<not> n) in_AA in_NT) atom_df;
          aa_tmp = aa\<lparr>c_ResName := map_names (AA C) (c_ResName aa)\<rparr>;
          nt_tmp = nt\<lparr>c_ResName := map_names (NT C) (c_ResName nt)\<rparr>
      in (final_frame ''-'' aa_tmp, final_frame ''-'' nt_tmp, final_frame '';'' ns))"

text \<open>The diagnostic printing under \<open>disable_print\<close> does not change what is
  returned and is left out. A frame built from empty lists has no column of strings:
  on a model without lines, joining \<open>Chain\<close> with the separator (source line 146)
  raises \<open>TypeError\<close>.\<close>

definition atom_frame :: "'n::plus constants \<Rightarrow> string list \<Rightarrow> error + 'n atom_info" where
  "atom_frame C atom_model =
     (case add_atoms C atom_model empty_info of
        Inl e \<Rightarrow> Inl e
      | Inr info \<Rightarrow>
          (case from_dict info of
             Inl e \<Rightarrow> Inl e
           | Inr df \<Rightarrow> Inr (add_Radius_H2O C df)))"

definition parse_atom_model ::
  "'n::plus constants \<Rightarrow> string list \<Rightarrow> error + ('n frame \<times> 'n frame \<times> 'n frame)" where
  "parse_atom_model C atom_model =
     (case atom_frame C atom_model of
        Inl e \<Rightarrow> Inl e
      | Inr atom_df \<Rightarrow>
          if c_Chain atom_df = [] then Inl TypeError else Inr (partitions C atom_df))"

section \<open>\<open>arip_analyze\<close> and \<open>arip_main\<close>\<close>

subsection \<open>Tables as data frames\<close>

text \<open>\<open>df.empty\<close>: no column, or no row.\<close>

definition frame_empty :: "'n frame \<Rightarrow> bool" where
  "frame_empty f = (case f of [] \<Rightarrow> True | (_, col) # _ \<Rightarrow> col = [])"

text \<open>\<open>pd.concat([aa_df, nt_df, ns_df], axis=0)\<close>: the three tables have the same
  nine columns in the same order, so each column of the first is followed by the column
  of that name of the others.\<close>

definition column :: "'n frame \<Rightarrow> string \<Rightarrow> 'n cell list" where
  "column f name = (case map_of f name of Some col \<Rightarrow> col | None \<Rightarrow> [])"

definition concat_frames :: "'n frame \<Rightarrow> 'n frame \<Rightarrow> 'n frame \<Rightarrow> 'n frame" where
  "concat_frames f g h = map (\<lambda>(name, col). (name, col @ column g name @ column h name)) f"

text \<open>\<open>df[[names]]\<close>: the named columns in the order asked for; a name that is not
  a column raises \<open>KeyError\<close>.\<close>

fun select_columns :: "string list \<Rightarrow> 'n frame \<Rightarrow> error + 'n frame" where
  "select_columns [] f = Inr []"
| "select_columns (name # names) f =
     (case map_of f name of
        None \<Rightarrow> Inl KeyError
      | Some col \<Rightarrow>
          (case select_columns names f of
             Inl e \<Rightarrow> Inl e
           | Inr g \<Rightarrow> Inr ((name, col) # g)))"

definition contact_columns :: "string list" where
  "contact_columns = [''Name'', ''x'', ''y'', ''z'', ''R'', ''Surf'', ''Type'']"

subsection \<open>The collaborators\<close>

text \<open>
  The four collaborators are modules that are not among the sources; they are
  parameters. Each may raise (\<open>Inl\<close>). The values they return are of a type \<open>'v\<close>
  of Python objects, with their truth value \<open>truthy\<close>. \<open>pdb_dotarray_volume\<close>
  receives the data frame \<open>atom_df\<close> itself and may change it in place, so it gives
  back the frame as the call leaves it, besides the pair that it returns.
\<close>

record ('n, 'v) collaborators =
  pdb_dihedral_angle :: "string \<Rightarrow> string \<Rightarrow> bool \<Rightarrow> error + 'v"
  pdb_dotarray_volume :: "'n frame \<Rightarrow> bool \<Rightarrow> 'n \<Rightarrow> bool \<Rightarrow> error + ('n frame \<times> 'v \<times> 'v)"
  pdb_dotarray_surface :: "string \<Rightarrow> 'n frame \<Rightarrow> 'v \<Rightarrow> bool \<Rightarrow> error + 'v"
  pdb_csv_sort ::
    "int \<Rightarrow> string \<Rightarrow> 'v option \<Rightarrow> 'v \<Rightarrow> 'v \<Rightarrow> string \<Rightarrow> 'n list \<Rightarrow> bool \<Rightarrow> bool \<Rightarrow> error + unit"
  truthy :: "'v \<Rightarrow> bool"

text \<open>The arguments that \<open>arip_main\<close> passes on unchanged.\<close>

record 'n run_args =
  interval :: 'n
  ref_fp :: string
  out_dp :: string
  threshold :: "'n list"
  density :: bool
  compress :: bool
  disable_print :: bool

subsection \<open>What a run does: its trace\<close>

text \<open>
  The effects of the orchestrator are its log lines and its calls; a run is modelled
  by the list of these events, in order. A call is recorded when it is made, whether
  or not it returns. The elapsed time in the \<open>run OK\<close> line is left out.
\<close>

datatype message =
    Skip_memory string      \<comment> \<open>Skipping file .. due to insufficient memory or no valid atoms\<close>
  | Skip_no_atoms string    \<comment> \<open>Skipping file .. due to no valid atoms\<close>
  | Run_OK string           \<comment> \<open>The PDB .. run OK\<close>
  | Cannot_analyze string   \<comment> \<open>The file .. cannot be analyzed\<close>

datatype ('n, 'v) event =
    Print message
  | Call_parse_atom_model "string list"
  | Call_dihedral_angle string string
  | Call_dotarray_volume "'n frame" bool 'n
  | Call_dotarray_surface string "'n frame" 'v
  | Call_csv_sort int string "'v option" 'v 'v string "'n list" bool

text \<open>The name in a log line: \<open>{name}\<close> when \<open>idx == -1\<close>, else
  \<open>{name}_MODEL_{idx}\<close>.\<close>

definition model_label :: "string \<Rightarrow> int \<Rightarrow> string" where
  "model_label name idx = (if idx = - 1 then name else name @ ''_MODEL_'' @ str_int idx)"

subsection \<open>\<open>arip_analyze\<close> (source lines 172 to 199)\<close>

text \<open>What the body returns: \<open>None\<close> at its end, or the pair of line 190.\<close>

datatype analyze_result = Finished | Sentinel int int

text \<open>The dihedral angles: \<open>False\<close> (here \<open>None\<close>) unless \<open>aa_df\<close> has rows.\<close>

definition dihedral_step ::
  "('n, 'v) collaborators \<Rightarrow> 'n run_args \<Rightarrow> string \<Rightarrow> string list \<Rightarrow> 'n frame
     \<Rightarrow> ('n, 'v) event list \<times> (error + 'v option)" where
  "dihedral_step K a name atom_model aa_df =
     (if \<not> frame_empty aa_df then
        ([Call_dihedral_angle name (concat atom_model)],
         (case pdb_dihedral_angle K name (concat atom_model) (disable_print a) of
            Inl e \<Rightarrow> Inl e
          | Inr d \<Rightarrow> Inr (Some d)))
      else ([], Inr None))"

text \<open>From the test of line 188 to the end of the body.\<close>

definition after_volume ::
  "('n, 'v) collaborators \<Rightarrow> 'n run_args \<Rightarrow> int \<Rightarrow> string \<Rightarrow> 'v option \<Rightarrow> 'n frame \<Rightarrow> 'v \<Rightarrow> 'v
     \<Rightarrow> ('n, 'v) event list \<times> (error + analyze_result)" where
  "after_volume K a idx name dihedral_angle atom_df contact_dict volume =
     (if \<not> truthy K contact_dict \<and> \<not> truthy K volume then
        ([Print (Skip_memory name)], Inr (Sentinel (- 1) (- 1)))
      else
        (case select_columns contact_columns atom_df of
           Inl e \<Rightarrow> ([], Inl e)
         | Inr contact_df \<Rightarrow>
             (case pdb_dotarray_surface K (ref_fp a) contact_df contact_dict (disable_print a) of
                Inl e \<Rightarrow> ([Call_dotarray_surface (ref_fp a) contact_df contact_dict], Inl e)
              | Inr surface \<Rightarrow>
                  ([Call_dotarray_surface (ref_fp a) contact_df contact_dict,
                    Call_csv_sort idx name dihedral_angle surface volume (out_dp a)
                      (threshold a) (compress a)],
                   (case pdb_csv_sort K idx name dihedral_angle surface volume (out_dp a)
                           (threshold a) (compress a) (disable_print a) of
                      Inl e \<Rightarrow> Inl e
                    | Inr _ \<Rightarrow> Inr Finished)))))"

definition arip_analyze ::
  "'n::plus constants \<Rightarrow> ('n, 'v) collaborators \<Rightarrow> 'n run_args \<Rightarrow> int \<Rightarrow> string \<Rightarrow> string list
     \<Rightarrow> ('n, 'v) event list \<times> (error + analyze_result)" where
  "arip_analyze C K a idx name atom_model =
     (case parse_atom_model C atom_model of
        Inl e \<Rightarrow> ([Call_parse_atom_model atom_model], Inl e)
      | Inr (aa_df, nt_df, ns_df) \<Rightarrow>
          (case dihedral_step K a name atom_model aa_df of
             (ev_d, Inl e) \<Rightarrow> (Call_parse_atom_model atom_model # ev_d, Inl e)
           | (ev_d, Inr dihedral_angle) \<Rightarrow>
               (case pdb_dotarray_volume K (concat_frames aa_df nt_df ns_df)
                       (density a) (interval a) (disable_print a) of
                  Inl e \<Rightarrow>
                    (Call_parse_atom_model atom_model # ev_d
                       @ [Call_dotarray_volume (concat_frames aa_df nt_df ns_df)
                            (density a) (interval a)],
                     Inl e)
                | Inr (atom_df, contact_dict, volume) \<Rightarrow>
                    (case after_volume K a idx name dihedral_angle atom_df contact_dict volume of
                       (ev_r, r) \<Rightarrow>
                         (Call_parse_atom_model atom_model # ev_d
                            @ [Call_dotarray_volume (concat_frames aa_df nt_df ns_df)
                                 (density a) (interval a)]
                            @ ev_r,
                          r)))))"

subsection \<open>The decorator \<open>timer_s\<close> and \<open>arip_main\<close> (source lines 201 to 218)\<close>

text \<open>
  Modelled from the spec: \<open>timer_s\<close> (module \<open>utils\<close>, not among the sources) gives
  the caller the elapsed seconds, a float, when the body ends normally; by the comment
  of source line 214 the caller gets a tuple of three, the time and the two markers,
  when the body returns the pair of line 190. An exception of the body passes through.
\<close>

datatype timed = Elapsed | Elapsed_and int int

definition timer_s :: "analyze_result \<Rightarrow> timed" where
  "timer_s r = (case r of Finished \<Rightarrow> Elapsed | Sentinel m n \<Rightarrow> Elapsed_and m n)"

definition is_float :: "timed \<Rightarrow> bool" where
  "is_float t = (case t of Elapsed \<Rightarrow> True | Elapsed_and _ _ \<Rightarrow> False)"

text \<open>The loop of \<open>arip_main\<close> inside its \<open>try\<close>: an exception in a model ends the
  loop with the log line of the \<open>except\<close> clause.\<close>

fun arip_loop ::
  "'n::plus constants \<Rightarrow> ('n, 'v) collaborators \<Rightarrow> 'n run_args \<Rightarrow> string
     \<Rightarrow> (int \<times> string list) list \<Rightarrow> ('n, 'v) event list" where
  "arip_loop C K a name [] = []"
| "arip_loop C K a name ((idx, a_model) # rest) =
     (if a_model = [] then
        Print (Skip_no_atoms (model_label name idx)) # arip_loop C K a name rest
      else
        (case arip_analyze C K a idx name a_model of
           (evs, Inl e) \<Rightarrow> evs @ [Print (Cannot_analyze name)]
         | (evs, Inr r) \<Rightarrow>
             evs @ (if is_float (timer_s r) then [Print (Run_OK (model_label name idx))] else [])
                 @ arip_loop C K a name rest))"

text \<open>\<open>load_atom_models\<close> is called before the \<open>try\<close>: its error ends \<open>arip_main\<close>.
  The name is the file name without its last two suffixes.\<close>

definition arip_main ::
  "'n::plus constants \<Rightarrow> ('n, 'v) collaborators \<Rightarrow> 'n run_args \<Rightarrow> string \<Rightarrow> string list option
     \<Rightarrow> ('n, 'v) event list \<times> (error + unit)" where
  "arip_main C K a name file =
     (case load_atom_models name file of
        Inl e \<Rightarrow> ([], Inl e)
      | Inr a_models \<Rightarrow> (arip_loop C K a name a_models, Inr ()))"

section \<open>Example inputs\<close>

text \<open>Atom lines in the fixed columns of the format, used to evaluate the definitions.\<close>

definition line_CA :: string where \<comment> \<open>an alanine C-alpha, blank alternate location\<close>
  "line_CA =
     ''ATOM      2  CA  ALA A   1      11.104   6.134  -6.504  1.00  0.00           C''"

definition line_CA_altA :: string where \<comment> \<open>the same site, alternate location A\<close>
  "line_CA_altA =
     ''ATOM      3  CA AALA A   1      11.104   6.134  -6.504  1.00  0.00           C''"

definition line_CA_altB :: string where \<comment> \<open>the same site, alternate location B\<close>
  "line_CA_altB =
     ''ATOM      4  CA BALA A   1      11.104   6.134  -6.504  1.00  0.00           C''"

definition line_H :: string where \<comment> \<open>a hydrogen\<close>
  "line_H =
     ''ATOM      5  H   ALA A   1      11.104   6.134  -6.504  1.00  0.00           H''"

definition line_H_left :: string where \<comment> \<open>a hydrogen, its element in column 76\<close>
  "line_H_left =
     ''ATOM     11  H   ALA A   1      11.104   6.134  -6.504  1.00  0.00          H ''"

definition line_HOH :: string where \<comment> \<open>a water oxygen\<close>
  "line_HOH =
     ''HETATM    6  O   HOH A   2      11.104   6.134  -6.504  1.00  0.00           O''"

definition line_OXT :: string where \<comment> \<open>a terminal oxygen\<close>
  "line_OXT =
     ''ATOM      7  OXT ALA A   1      11.104   6.134  -6.504  1.00  0.00           O''"

definition line_XX :: string where \<comment> \<open>a carbon of a nucleotide under an atom name that starts with X\<close>
  "line_XX =
     ''ATOM      8  XX   DA B   2      11.104   6.134  -6.504  1.00  0.00           C''"

definition line_N1 :: string where \<comment> \<open>a nitrogen of a nucleotide\<close>
  "line_N1 =
     ''ATOM      9  N1   DA B   2      11.104   6.134  -6.504  1.00  0.00           N''"

definition line_ZN :: string where \<comment> \<open>a zinc ion\<close>
  "line_ZN =
     ''HETATM   10 ZN    ZN A   3      11.104   6.134  -6.504  1.00  0.00          ZN''"

text \<open>Small tables in the shape of those of \<open>PDB_constants\<close>, with integers for
  the numbers and a stand-in for \<open>float\<close>.\<close>

definition ex_constants :: "int constants" where
  "ex_constants =
     \<lparr>Radius = [''ALA'' \<mapsto> [''CA'' \<mapsto> (2, ''C4H1b'', 10, 20)],
                ''DA'' \<mapsto> [''C'' \<mapsto> (2, ''C3H0'', 11, 21), ''N'' \<mapsto> (3, ''N3H0'', 12, 22)],
                ''UNDEF'' \<mapsto> [''C'' \<mapsto> (2, ''C'', 13, 23), ''ZN'' \<mapsto> (4, ''ZN'', 14, 24)]],
      AA = [''ALA'' \<mapsto> ''A''],
      NT = [''DA'' \<mapsto> ''DA''],
      Radius_H2O = 1,
      py_float = (\<lambda>s. Some 0)\<rparr>"

text \<open>Collaborators whose values are natural numbers, true when not zero. The volume
  collaborator of \<open>ex_collaborators keep degenerate\<close> returns the pair \<open>(0, 0)\<close> when
  \<open>degenerate\<close> holds and \<open>(1, 5)\<close> otherwise; it leaves the table as it is when
  \<open>keep\<close> holds and adds a column \<open>Name\<close> to it otherwise.\<close>

definition ex_collaborators :: "bool \<Rightarrow> bool \<Rightarrow> (int, nat) collaborators" where
  "ex_collaborators keep degenerate =
     \<lparr>pdb_dihedral_angle = (\<lambda>name pdb_file dp. Inr 7),
      pdb_dotarray_volume = (\<lambda>atom_df dens intv dp.
         Inr (if keep then atom_df else (''Name'', column atom_df ''Residue'') # atom_df,
              if degenerate then 0 else 1, if degenerate then 0 else 5)),
      pdb_dotarray_surface = (\<lambda>ref contact_df contact_dict dp. Inr 9),
      pdb_csv_sort = (\<lambda>idx name dihedral surface volume out thr comp dp. Inr ()),
      truthy = (\<lambda>v. v \<noteq> 0)\<rparr>"

definition ex_args :: "int run_args" where
  "ex_args = \<lparr>interval = 1, ref_fp = ''ref'', out_dp = ''out'', threshold = [3, 4],
              density = False, compress = False, disable_print = True\<rparr>"

text \<open>The tables of the classifier for the one line \<open>line_CA\<close>, and the table
  reduced to the columns of the surface step.\<close>

definition ex_aa_df :: "int frame" where
  "ex_aa_df = [(''Residue'', [Str ''A1-A'']), (''Atom'', [Str ''CA'']),
       (''x'', [Num 0]), (''y'', [Num 0]), (''z'', [Num 0]),
       (''R'', [Num 3]), (''Type'', [Str ''C4H1b'']), (''Surf'', [Num 10]),
       (''Volu'', [Num 20])]"

definition ex_empty_df :: "int frame" where
  "ex_empty_df = [(''Residue'', []), (''Atom'', []), (''x'', []), (''y'', []), (''z'', []),
       (''R'', []), (''Type'', []), (''Surf'', []), (''Volu'', [])]"

definition ex_contact_df :: "int frame" where
  "ex_contact_df = [(''Name'', [Str ''A1-A'']), (''x'', [Num 0]), (''y'', [Num 0]),
       (''z'', [Num 0]), (''R'', [Num 3]), (''Surf'', [Num 10]), (''Type'', [Str ''C4H1b''])]"

section \<open>Properties of \<open>load_atom_models\<close>\<close>

subsection \<open>Comprehensions that may raise\<close>

lemma filter_err_Inr:
  "filter_err p xs = Inr ys \<Longrightarrow> ys = filter (\<lambda>x. p x = Inr True) xs"
  by (induction xs arbitrary: ys) (auto split: sum.splits if_splits)

lemma filter_err_total:
  "list_all (\<lambda>x. \<exists>b. p x = Inr b) xs \<Longrightarrow> filter_err p xs = Inr (filter (\<lambda>x. p x = Inr True) xs)"
  by (induction xs) (auto split: sum.splits)

lemma filter_blocks_Inr:
  "filter_blocks bs = Inr ms \<Longrightarrow>
     ms = map (\<lambda>(idx, b). (idx, filter (\<lambda>x. keep_multi x = Inr True) b)) bs"
  by (induction bs arbitrary: ms rule: filter_blocks.induct)
     (auto split: sum.splits dest: filter_err_Inr)

lemma filter_blocks_total:
  "list_all (\<lambda>x. \<exists>b. keep_multi x = Inr b) (concat (map snd bs)) \<Longrightarrow>
     filter_blocks bs = Inr (map (\<lambda>(idx, b). (idx, filter (\<lambda>x. keep_multi x = Inr True) b)) bs)"
  by (induction bs rule: filter_blocks.induct) (auto simp: filter_err_total)

lemma keep_multi_single: "keep_multi l = Inr True \<Longrightarrow> keep_single l = Inr True"
  by (simp add: keep_multi_def split: if_splits)

lemma extract_admitted:
  assumes "extract_models name lines = Inr ms" "(idx, m) \<in> set ms" "l \<in> set m"
  shows "keep_single l = Inr True"
  using assms
  by (auto simp: extract_models_def choose_MDL_def split: sum.splits mdl.splits if_splits
      dest!: filter_err_Inr filter_blocks_Inr simp: keep_multi_single)

lemma load_admitted:
  assumes "load_atom_models name file = Inr ms" "(idx, m) \<in> set ms" "l \<in> set m"
  shows "keep_single l = Inr True"
  using assms by (auto simp: load_atom_models_def split: option.splits dest: extract_admitted)


subsection \<open>Substrings, slices and trimming\<close>

lemma contains_prefix: "contains sub (sub @ q)"
proof (cases "sub @ q")
  case Nil
  then show ?thesis by simp
next
  case (Cons a list)
  have "startswith (sub @ q) sub" by (simp add: startswith_def)
  then show ?thesis using Cons by simp
qed

lemma contains_append: "contains sub (p @ sub @ q)"
  by (induction p) (simp_all add: contains_prefix)

lemma lstrip_decomp: "\<exists>p. s = p @ lstrip s"
  unfolding lstrip_def by (metis takeWhile_dropWhile_id)

lemma rstrip_decomp: "\<exists>q. s = rstrip s @ q"
proof -
  have "rev (takeWhile is_space (rev s) @ dropWhile is_space (rev s)) = rev (rev s)"
    by (simp only: takeWhile_dropWhile_id)
  then have "rev (dropWhile is_space (rev s)) @ rev (takeWhile is_space (rev s)) = s"
    by (simp only: rev_append rev_rev_ident)
  then have "s = rstrip s @ rev (takeWhile is_space (rev s))"
    by (simp add: rstrip_def)
  then show ?thesis ..
qed

lemma strip_decomp: "\<exists>p q. s = p @ strip s @ q"
proof -
  obtain p where p: "s = p @ lstrip s" using lstrip_decomp by blast
  obtain q where q: "lstrip s = rstrip (lstrip s) @ q" using rstrip_decomp by blast
  have "s = p @ strip s @ q" unfolding strip_def using p q by metis
  then show ?thesis by blast
qed

lemma slice_decomp: "\<exists>p q. s = p @ slice s a b @ q"
proof -
  have "s = take a s @ take (b - a) (drop a s) @ drop (b - a) (drop a s)"
    by (metis append_take_drop_id)
  then show ?thesis unfolding slice_def by blast
qed

lemma contains_strip_slice: "contains (strip (slice l a b)) l"
proof -
  obtain p q where 1: "l = p @ slice l a b @ q" using slice_decomp by blast
  obtain p' q' where 2: "slice l a b = p' @ strip (slice l a b) @ q'"
    using strip_decomp by blast
  have "l = (p @ p') @ strip (slice l a b) @ (q' @ q)"
    using 1 2 by (metis append.assoc)
  then show ?thesis by (metis contains_append)
qed

lemma lstrip_same_length: "length (lstrip s) = length s \<Longrightarrow> lstrip s = s"
proof -
  assume a: "length (lstrip s) = length s"
  have "length (takeWhile is_space s) + length (dropWhile is_space s) = length s"
    by (metis length_append takeWhile_dropWhile_id)
  with a have "takeWhile is_space s = []" by (simp add: lstrip_def)
  then show ?thesis unfolding lstrip_def by (metis append_Nil takeWhile_dropWhile_id)
qed

lemma lstrip_field3: "lstrip (slice l 17 20) = ''HOH'' \<Longrightarrow> slice l 17 20 = ''HOH''"
proof -
  assume a: "lstrip (slice l 17 20) = ''HOH''"
  have "length (slice l 17 20) \<le> 3" by (simp add: slice_def)
  moreover have "length (lstrip (slice l 17 20)) \<le> length (slice l 17 20)"
    by (simp add: lstrip_def length_dropWhile_le)
  ultimately have "length (lstrip (slice l 17 20)) = length (slice l 17 20)"
    using a by simp
  then show ?thesis using a lstrip_same_length by metis
qed

lemma keep_single_fields:
  assumes "keep_single l = Inr True"
  shows "Ele_of l \<noteq> ''H''" "slice l 17 20 \<noteq> ''HOH''" "Res_of l \<noteq> ''HOH''"
        "Ana_of l \<noteq> ''OXT''" "\<not> contains ''OXT'' l"
        "16 < length l" "l ! 16 = CHR '' '' \<or> l ! 16 = CHR ''A''"
proof -
  from assms show 1: "\<not> contains ''OXT'' l" and "Ele_of l \<noteq> ''H''" and 2: "slice l 17 20 \<noteq> ''HOH''"
    and "16 < length l" and "l ! 16 = CHR '' '' \<or> l ! 16 = CHR ''A''"
    by (auto simp: keep_single_def Ele_of_def split: if_splits)
  show "Res_of l \<noteq> ''HOH''" using 2 lstrip_field3 unfolding Res_of_def by blast
  show "Ana_of l \<noteq> ''OXT''" using 1 contains_strip_slice[of l 12 16] unfolding Ana_of_def by auto
qed

subsection \<open>Markers and blocks\<close>

lemma startswith_Cons: "startswith l (c # p) \<Longrightarrow> \<exists>r. l = c # r"
  by (cases l) (auto simp: startswith_def)

lemma marker_not_atom:
  assumes "startswith l ''MODEL''" shows "keep_multi l = Inr False"
proof -
  obtain r where "l = CHR ''M'' # r" using assms startswith_Cons by blast
  then show ?thesis by (simp add: keep_multi_def is_atom_record_def startswith_def)
qed

lemma MODEL_nth:
  assumes "i < length (MODEL lines)"
  shows "MODEL lines ! i < length lines" "startswith (lines ! (MODEL lines ! i)) ''MODEL''"
proof -
  have "MODEL lines ! i \<in> set (MODEL lines)" using assms by simp
  then show "MODEL lines ! i < length lines" "startswith (lines ! (MODEL lines ! i)) ''MODEL''"
    by (auto simp: MODEL_def)
qed

lemma ENDMDL_nth:
  assumes "i < length (ENDMDL lines)"
  shows "ENDMDL lines ! i < length lines"
proof -
  have "ENDMDL lines ! i \<in> set (ENDMDL lines)" using assms by simp
  then show ?thesis by (auto simp: ENDMDL_def)
qed

lemma slice_map_nth: "b \<le> length xs \<Longrightarrow> slice xs a b = map (nth xs) [a..<b]"
  by (rule nth_equalityI) (auto simp: slice_def)

lemma keep_multi_cases: "keep_multi l = Inr True \<or> keep_multi l = Inr False \<or> keep_multi l = Inl IndexError"
  by (auto simp: keep_multi_def keep_single_def)

lemma block_admitted:
  assumes "i < length (MODEL lines)" "length (MODEL lines) = length (ENDMDL lines)"
  shows "filter (\<lambda>l. keep_multi l = Inr True) (slice lines (MODEL lines ! i) (ENDMDL lines ! i))
       = map (nth lines) (filter (\<lambda>j. keep_multi (lines ! j) = Inr True)
                            [Suc (MODEL lines ! i)..<ENDMDL lines ! i])"
proof -
  let ?a = "MODEL lines ! i" and ?b = "ENDMDL lines ! i"
  have b: "?b \<le> length lines" using ENDMDL_nth[of i lines] assms by simp
  have sl: "slice lines ?a ?b = map (nth lines) [?a..<?b]" using b by (rule slice_map_nth)
  show ?thesis
  proof (cases "?a < ?b")
    case True
    then have "[?a..<?b] = ?a # [Suc ?a..<?b]" by (simp add: upt_conv_Cons)
    moreover have "keep_multi (lines ! ?a) = Inr False"
      using MODEL_nth(2)[OF assms(1)] by (rule marker_not_atom)
    ultimately show ?thesis using sl by (simp add: filter_map comp_def)
  next
    case False
    then show ?thesis using sl by simp
  qed
qed

lemma MDL_blocks_nth:
  "i < length (MODEL lines) \<Longrightarrow>
     MDL_blocks lines ! i = (int i + 1, slice lines (MODEL lines ! i) (ENDMDL lines ! i))"
  by (simp add: MDL_blocks_def)

lemma extract_multi:
  assumes "MODEL lines \<noteq> []" "length (MODEL lines) = length (ENDMDL lines)"
  shows "extract_models name lines = filter_blocks (MDL_blocks lines)"
  using assms by (simp add: extract_models_def choose_MDL_def)


lemma extract_multi_ok:
  assumes "MODEL lines \<noteq> []" "length (MODEL lines) = length (ENDMDL lines)"
    "list_all (\<lambda>l. keep_multi l \<noteq> Inl IndexError) (block_lines lines)"
  shows "extract_models name lines =
     Inr (map (\<lambda>(idx, b). (idx, filter (\<lambda>x. keep_multi x = Inr True) b)) (MDL_blocks lines))"
proof -
  have "list_all (\<lambda>x. \<exists>b. keep_multi x = Inr b) (concat (map snd (MDL_blocks lines)))"
    using assms(3) keep_multi_cases unfolding block_lines_def list_all_iff by metis
  then show ?thesis using extract_multi[OF assms(1,2)] filter_blocks_total by simp
qed


subsection \<open>Claim C3\<close>

text \<open>
  Claim C3, as amended. No line of a model that \<open>load_atom_models\<close> returns has the
  element \<open>H\<close>, the residue name \<open>HOH\<close> or the atom name \<open>OXT\<close>, the fields being
  read as the filter and \<open>parse_atom_model\<close> read them: the element and the residue
  name trimmed on the left (\<open>lstrip\<close>), the atom name trimmed on both sides
  (\<open>strip\<close>). The untrimmed residue name field is not \<open>HOH\<close> either.
\<close>

theorem admitted_line_not_hydrogen_water_OXT:
  assumes "load_atom_models name file = Inr a_models"
    and "(idx, a_model) \<in> set a_models" and "line \<in> set a_model"
  shows "Ele_of line \<noteq> ''H'' \<and> slice line 17 20 \<noteq> ''HOH'' \<and> Res_of line \<noteq> ''HOH''
         \<and> Ana_of line \<noteq> ''OXT''"
proof -
  have "keep_single line = Inr True" using assms by (rule load_admitted)
  then show ?thesis using keep_single_fields by blast
qed

text \<open>A file of one admissible atom, a hydrogen, a water and a terminal oxygen.\<close>

theorem admitted_line_not_hydrogen_water_OXT_witness:
  "load_atom_models ''1abc'' (Some [''HEADER'', line_CA, line_H, line_HOH, line_OXT])
     = Inr [(- 1, [line_CA])]
   \<and> Ele_of line_CA \<noteq> ''H'' \<and> slice line_CA 17 20 \<noteq> ''HOH'' \<and> Res_of line_CA \<noteq> ''HOH''
   \<and> Ana_of line_CA \<noteq> ''OXT''"
proof -
  have h: "load_atom_models ''1abc'' (Some [''HEADER'', line_CA, line_H, line_HOH, line_OXT])
     = Inr [(- 1, [line_CA])]" by code_simp
  from admitted_line_not_hydrogen_water_OXT[OF h, of "- 1" "[line_CA]" line_CA] show ?thesis using h by simp
qed

text \<open>
  Claim C3 as stated fails for the element trimmed on the right or on both sides: the
  filter trims it on the left only (the comment of source line 52), so a hydrogen
  whose element stands in column 76, followed by a blank, is admitted.
\<close>

theorem left_justified_hydrogen_admitted:
  "load_atom_models ''1abc'' (Some [''HEADER'', line_H_left]) = Inr [(- 1, [line_H_left])]
   \<and> slice line_H_left 76 78 = ''H ''
   \<and> rstrip (slice line_H_left 76 78) = ''H''
   \<and> strip (slice line_H_left 76 78) = ''H''"
  by code_simp

subsection \<open>Claim C4\<close>

text \<open>What the filter does ensure: every line of a returned model has a blank or an
  \<open>A\<close> in column 16, so two lines that both carry a letter carry the same one.\<close>

lemma admitted_altloc_blank_or_A:
  assumes "load_atom_models name file = Inr a_models"
    and "(idx, a_model) \<in> set a_models" and "l1 \<in> set a_model" and "l2 \<in> set a_model"
  shows "16 < length l1 \<and> (l1 ! 16 = CHR '' '' \<or> l1 ! 16 = CHR ''A'')
         \<and> (site_of l1 = site_of l2 \<and> l1 ! 16 \<noteq> CHR '' '' \<and> l2 ! 16 \<noteq> CHR '' ''
              \<longrightarrow> l1 ! 16 = l2 ! 16)"
proof -
  have 1: "keep_single l1 = Inr True" using assms(1,2,3) by (rule load_admitted)
  have 2: "keep_single l2 = Inr True" using assms(1,2,4) by (rule load_admitted)
  show ?thesis using keep_single_fields(6,7)[OF 1] keep_single_fields(7)[OF 2] by auto
qed

text \<open>
  Claim C4. At most one alternate-location variant of an atomic site should pass the
  filter, and the comment of source line 47 says that the filter removes multiple
  atoms in the same position. The code does not: the test of column 16 is made line by
  line, and a record with a blank indicator and a record with the indicator \<open>A\<close> of the
  same site, at the same coordinates, are both in the model that is returned.
\<close>

theorem altloc_blank_and_A_both_pass:
  "load_atom_models ''1abc'' (Some [''HEADER'', line_CA, line_CA_altA])
     = Inr [(- 1, [line_CA, line_CA_altA])]
   \<and> site_of line_CA = site_of line_CA_altA
   \<and> slice line_CA 30 54 = slice line_CA_altA 30 54
   \<and> line_CA ! 16 \<noteq> line_CA_altA ! 16"
  by code_simp

subsection \<open>Claim C5\<close>

text \<open>
  Claim C5, as amended. \<open>lines\<close> are the lines after the first line of the file.
  When \<open>lines\<close> hold as many \<open>ENDMDL\<close> as \<open>MODEL\<close> lines and at least one, and
  no line of a block raises in the filter (no \<open>ATOM\<close> or \<open>HETATM\<close> line without
  \<open>OXT\<close> in a block has fewer than 17 characters), extraction returns as many models
  as there are \<open>MODEL\<close> lines, numbered from 1 in file order, and the lines of model
  \<open>i+1\<close> are the admitted lines at the positions strictly between the \<open>i\<close>-th
  \<open>MODEL\<close> line and the \<open>i\<close>-th \<open>ENDMDL\<close> line, in order.
\<close>

theorem explicit_models_between_markers:
  assumes "MODEL (drop 1 file_lines) \<noteq> []"
    and "length (MODEL (drop 1 file_lines)) = length (ENDMDL (drop 1 file_lines))"
    and "list_all (\<lambda>l. keep_multi l \<noteq> Inl IndexError) (block_lines (drop 1 file_lines))"
  shows "\<exists>a_models.
     load_atom_models name (Some file_lines) = Inr a_models
     \<and> length a_models = length (MODEL (drop 1 file_lines))
     \<and> map fst a_models = map int [1..<Suc (length (MODEL (drop 1 file_lines)))]
     \<and> (\<forall>i < length (MODEL (drop 1 file_lines)).
          snd (a_models ! i) =
            map (nth (drop 1 file_lines))
              (filter (\<lambda>j. keep_multi (drop 1 file_lines ! j) = Inr True)
                 [Suc (MODEL (drop 1 file_lines) ! i)..<ENDMDL (drop 1 file_lines) ! i]))"
proof -
  let ?lines = "drop 1 file_lines"
  let ?ms = "map (\<lambda>(idx, b). (idx, filter (\<lambda>x. keep_multi x = Inr True) b)) (MDL_blocks ?lines)"
  have 1: "load_atom_models name (Some file_lines) = Inr ?ms"
    using extract_multi_ok[OF assms] by (simp add: load_atom_models_def)
  have 2: "length ?ms = length (MODEL ?lines)" by (simp add: MDL_blocks_def)
  have "map fst ?ms = map (\<lambda>i. int i + 1) [0..<length (MODEL ?lines)]"
    by (simp add: MDL_blocks_def comp_def)
  also have "\<dots> = map int (map Suc [0..<length (MODEL ?lines)])" by simp
  also have "\<dots> = map int [1..<Suc (length (MODEL ?lines))]"
    by (simp only: map_Suc_upt One_nat_def)
  finally have 3: "map fst ?ms = map int [1..<Suc (length (MODEL ?lines))]" .
  have 4: "snd (?ms ! i) = map (nth ?lines)
              (filter (\<lambda>j. keep_multi (?lines ! j) = Inr True)
                 [Suc (MODEL ?lines ! i)..<ENDMDL ?lines ! i])"
    if "i < length (MODEL ?lines)" for i
  proof -
    have "i < length (MDL_blocks ?lines)" using that by (simp add: MDL_blocks_def)
    then have "snd (?ms ! i) = filter (\<lambda>x. keep_multi x = Inr True) (snd (MDL_blocks ?lines ! i))"
      by (simp add: case_prod_unfold)
    then show ?thesis using MDL_blocks_nth[OF that] block_admitted[OF that assms(2)] by simp
  qed
  show ?thesis using 1 2 3 4 by blast
qed

theorem explicit_models_between_markers_witness:
  "MODEL (drop 1 [''HEADER'', ''MODEL        1'', line_CA, ''TER'', ''ENDMDL'']) = [0]
   \<and> ENDMDL (drop 1 [''HEADER'', ''MODEL        1'', line_CA, ''TER'', ''ENDMDL'']) = [3]
   \<and> load_atom_models ''1abc'' (Some [''HEADER'', ''MODEL        1'', line_CA, ''TER'', ''ENDMDL''])
       = Inr [(1, [line_CA])]"
proof -
  let ?fl = "[''HEADER'', ''MODEL        1'', line_CA, ''TER'', ''ENDMDL'']"
  have M: "MODEL (drop 1 ?fl) = [0]" by code_simp
  have E: "ENDMDL (drop 1 ?fl) = [3]" by code_simp
  have h1: "MODEL (drop 1 ?fl) \<noteq> []" using M by simp
  have h2: "length (MODEL (drop 1 ?fl)) = length (ENDMDL (drop 1 ?fl))" using M E by simp
  have h3: "list_all (\<lambda>l. keep_multi l \<noteq> Inl IndexError) (block_lines (drop 1 ?fl))"
    by code_simp
  have k: "filter (\<lambda>j. keep_multi (drop 1 ?fl ! j) = Inr True) [Suc 0..<3] = [1]" by code_simp
  from explicit_models_between_markers[OF h1 h2 h3, of "''1abc''"] obtain a_models where
    r: "load_atom_models ''1abc'' (Some ?fl) = Inr a_models"
    and n: "length a_models = length (MODEL (drop 1 ?fl))"
    and f: "map fst a_models = map int [1..<Suc (length (MODEL (drop 1 ?fl)))]"
    and s: "\<forall>i<length (MODEL (drop 1 ?fl)). snd (a_models ! i) =
            map (nth (drop 1 ?fl))
              (filter (\<lambda>j. keep_multi (drop 1 ?fl ! j) = Inr True)
                 [Suc (MODEL (drop 1 ?fl) ! i)..<ENDMDL (drop 1 ?fl) ! i])"
    by blast
  from n M obtain m where am: "a_models = [m]" by (cases a_models) auto
  from f am M have "fst m = 1" by simp
  moreover from s am M E k have "snd m = [line_CA]" by simp
  ultimately have "m = (1, [line_CA])" by (cases m) simp
  then show ?thesis using r am M E by simp
qed

text \<open>
  Claim C5 as stated fails: with one matched pair of markers around a line \<open>ATOM\<close>
  that ends before column 16, the filter raises \<open>IndexError\<close> and no model is
  returned.
\<close>

theorem explicit_models_short_atom_line:
  "MODEL (drop 1 [''HEADER'', ''MODEL        1'', ''ATOM'', ''ENDMDL'']) = [0]
   \<and> ENDMDL (drop 1 [''HEADER'', ''MODEL        1'', ''ATOM'', ''ENDMDL'']) = [2]
   \<and> load_atom_models ''1abc'' (Some [''HEADER'', ''MODEL        1'', ''ATOM'', ''ENDMDL''])
       = Inl IndexError"
  by code_simp

subsection \<open>Claim C6\<close>

text \<open>
  Claim C6, as amended. When the numbers of \<open>MODEL\<close> and of \<open>ENDMDL\<close> lines among
  the lines that the loader scans (those after the first line of the file) differ,
  \<open>load_atom_models\<close> fails with the corrupted-file error; it returns no model, and
  \<open>arip_main\<close> ends with that error before any model is processed.
\<close>

theorem unequal_marker_counts_corrupted:
  assumes "length (MODEL (drop 1 file_lines)) \<noteq> length (ENDMDL (drop 1 file_lines))"
  shows "load_atom_models name (Some file_lines) = Inl (CorruptedFile name)
         \<and> arip_main C K a name (Some file_lines) = ([], Inl (CorruptedFile name))"
proof -
  have 1: "load_atom_models name (Some file_lines) = Inl (CorruptedFile name)"
    using assms by (auto simp: load_atom_models_def extract_models_def choose_MDL_def)
  then show ?thesis by (simp add: arip_main_def)
qed

theorem unequal_marker_counts_corrupted_witness:
  "length (MODEL (drop 1 [''HEADER'', ''MODEL        1'', line_CA])) = 1
   \<and> length (ENDMDL (drop 1 [''HEADER'', ''MODEL        1'', line_CA])) = 0
   \<and> load_atom_models ''1abc'' (Some [''HEADER'', ''MODEL        1'', line_CA])
       = Inl (CorruptedFile ''1abc'')
   \<and> arip_main ex_constants (ex_collaborators False False) ex_args ''1abc''
         (Some [''HEADER'', ''MODEL        1'', line_CA])
       = ([], Inl (CorruptedFile ''1abc''))"
proof -
  let ?fl = "[''HEADER'', ''MODEL        1'', line_CA]"
  have M: "length (MODEL (drop 1 ?fl)) = 1" by code_simp
  have E: "length (ENDMDL (drop 1 ?fl)) = 0" by code_simp
  have h: "length (MODEL (drop 1 ?fl)) \<noteq> length (ENDMDL (drop 1 ?fl))" using M E by simp
  from unequal_marker_counts_corrupted[OF h, where name = "''1abc''" and C = ex_constants
      and K = "ex_collaborators False False" and a = ex_args]
  show ?thesis using M E by simp
qed

text \<open>
  Claim C6 as stated fails: the first line of the file is read apart and dropped, so a
  marker on it is not counted. A file of two \<open>MODEL\<close> lines, the first of them on its
  first line, and one \<open>ENDMDL\<close> line loads one model, with no error.
\<close>

theorem marker_on_first_line_not_counted:
  "length (MODEL [''MODEL        1'', ''MODEL        2'', line_CA, ''ENDMDL'']) = 2
   \<and> length (ENDMDL [''MODEL        1'', ''MODEL        2'', line_CA, ''ENDMDL'']) = 1
   \<and> load_atom_models ''1abc''
         (Some [''MODEL        1'', ''MODEL        2'', line_CA, ''ENDMDL''])
       = Inr [(1, [line_CA])]"
  by code_simp

subsection \<open>Claim C10\<close>

text \<open>
  Claim C10, as amended. The \<open>i\<close>-th \<open>MODEL\<close> line is paired with the \<open>i\<close>-th
  \<open>ENDMDL\<close> line without any test of their order. When the \<open>ENDMDL\<close> line of a
  pair lies before its \<open>MODEL\<close> line, the block of that pair is empty; provided no
  line of a block raises in the filter, extraction returns one model per pair and the
  model of that pair has no line.
\<close>

theorem inverted_marker_pair_empty_model:
  assumes "MODEL (drop 1 file_lines) \<noteq> []"
    and "length (MODEL (drop 1 file_lines)) = length (ENDMDL (drop 1 file_lines))"
    and "list_all (\<lambda>l. keep_multi l \<noteq> Inl IndexError) (block_lines (drop 1 file_lines))"
    and "i < length (MODEL (drop 1 file_lines))"
    and "ENDMDL (drop 1 file_lines) ! i < MODEL (drop 1 file_lines) ! i"
  shows "\<exists>a_models.
     load_atom_models name (Some file_lines) = Inr a_models
     \<and> length a_models = length (MODEL (drop 1 file_lines))
     \<and> a_models ! i = (int i + 1, [])"
proof -
  let ?lines = "drop 1 file_lines"
  let ?ms = "map (\<lambda>(idx, b). (idx, filter (\<lambda>x. keep_multi x = Inr True) b)) (MDL_blocks ?lines)"
  have 1: "load_atom_models name (Some file_lines) = Inr ?ms"
    using extract_multi_ok[OF assms(1-3)] by (simp add: load_atom_models_def)
  have 2: "length ?ms = length (MODEL ?lines)" by (simp add: MDL_blocks_def)
  have "slice ?lines (MODEL ?lines ! i) (ENDMDL ?lines ! i) = []"
    using assms(5) by (simp add: slice_def)
  then have "MDL_blocks ?lines ! i = (int i + 1, [])"
    using MDL_blocks_nth[OF assms(4)] by simp
  moreover have "i < length (MDL_blocks ?lines)" using assms(4) by (simp add: MDL_blocks_def)
  ultimately have 3: "?ms ! i = (int i + 1, [])" by simp
  show ?thesis using 1 2 3 by blast
qed

theorem inverted_marker_pair_empty_model_witness:
  "MODEL (drop 1 [''HEADER'', ''ENDMDL'', ''MODEL        1'', ''MODEL        2'', line_CA, ''ENDMDL'']) = [1, 2]
   \<and> ENDMDL (drop 1 [''HEADER'', ''ENDMDL'', ''MODEL        1'', ''MODEL        2'', line_CA, ''ENDMDL'']) = [0, 4]
   \<and> (\<exists>a_models. load_atom_models ''1abc''
         (Some [''HEADER'', ''ENDMDL'', ''MODEL        1'', ''MODEL        2'', line_CA, ''ENDMDL''])
       = Inr a_models \<and> length a_models = 2 \<and> a_models ! 0 = (1, []))"
proof -
  let ?fl = "[''HEADER'', ''ENDMDL'', ''MODEL        1'', ''MODEL        2'', line_CA, ''ENDMDL'']"
  have M: "MODEL (drop 1 ?fl) = [1, 2]" by code_simp
  have E: "ENDMDL (drop 1 ?fl) = [0, 4]" by code_simp
  have h1: "MODEL (drop 1 ?fl) \<noteq> []" using M by simp
  have h2: "length (MODEL (drop 1 ?fl)) = length (ENDMDL (drop 1 ?fl))" using M E by simp
  have h3: "list_all (\<lambda>l. keep_multi l \<noteq> Inl IndexError) (block_lines (drop 1 ?fl))"
    by code_simp
  have h4: "0 < length (MODEL (drop 1 ?fl))" using M by simp
  have h5: "ENDMDL (drop 1 ?fl) ! 0 < MODEL (drop 1 ?fl) ! 0" using M E by simp
  from inverted_marker_pair_empty_model[OF h1 h2 h3 h4 h5, of "''1abc''"] show ?thesis using M E by (simp add: numeral_2_eq_2)
qed

text \<open>
  Claim C10 as stated fails: with an inverted first pair and a second pair around a
  line \<open>ATOM\<close> that ends before column 16, extraction raises \<open>IndexError\<close>.
\<close>

theorem inverted_marker_pair_short_atom_line:
  "MODEL (drop 1 [''HEADER'', ''ENDMDL'', ''MODEL        1'', ''MODEL        2'', ''ATOM'', ''ENDMDL'']) = [1, 2]
   \<and> ENDMDL (drop 1 [''HEADER'', ''ENDMDL'', ''MODEL        1'', ''MODEL        2'', ''ATOM'', ''ENDMDL'']) = [0, 4]
   \<and> load_atom_models ''1abc''
         (Some [''HEADER'', ''ENDMDL'', ''MODEL        1'', ''MODEL        2'', ''ATOM'', ''ENDMDL''])
       = Inl IndexError"
  by code_simp

section \<open>Properties of \<open>parse_atom_model\<close>\<close>

lemma resolve_at_most_one:
  assumes "dom (AA C) \<inter> dom (NT C) = {}" and "resolve C Res Ana Ele = Inr ps"
  shows "length ps \<le> 1"
proof (cases "Res \<in> dom (AA C)")
  case True
  then have "Res \<notin> dom (NT C)" using assms(1) by blast
  then show ?thesis using assms(2)
    by (auto simp: resolve_def resolve_AA_def resolve_NT_def lookup_def
        split: option.splits sum.splits if_splits)
next
  case False
  then show ?thesis using assms(2)
    by (auto simp: resolve_def resolve_AA_def resolve_NT_def lookup_def
        split: option.splits sum.splits if_splits list.splits)
qed

lemma add_atom_Inr:
  assumes "add_atom C atom info = Inr info'"
  shows "\<exists>ps. resolve C (Res_of atom) (Ana_of atom) (Ele_of atom) = Inr ps
          \<and> c_R info' = c_R info @ map fst ps
          \<and> c_ResName info' = c_ResName info @ [Res_of atom]
          \<and> length (c_Chain info') = Suc (length (c_Chain info))"
  using assms
  by (auto simp: add_atom_def split: option.splits if_splits sum.splits)

lemma add_atoms_Inr:
  "add_atoms C atoms info = Inr info' \<Longrightarrow>
     \<exists>pss. list_all2 (\<lambda>atom ps. resolve C (Res_of atom) (Ana_of atom) (Ele_of atom) = Inr ps)
              atoms pss
          \<and> c_R info' = c_R info @ map fst (concat pss)
          \<and> c_ResName info' = c_ResName info @ map Res_of atoms
          \<and> length (c_Chain info') = length (c_Chain info) + length atoms"
proof (induction atoms arbitrary: info)
  case Nil
  then show ?case by simp
next
  case (Cons atom atoms)
  from Cons.prems obtain info1 where 1: "add_atom C atom info = Inr info1"
    and 2: "add_atoms C atoms info1 = Inr info'"
    by (auto split: sum.splits)
  from add_atom_Inr[OF 1] obtain ps where
    ps: "resolve C (Res_of atom) (Ana_of atom) (Ele_of atom) = Inr ps"
    "c_R info1 = c_R info @ map fst ps"
    "c_ResName info1 = c_ResName info @ [Res_of atom]"
    "length (c_Chain info1) = Suc (length (c_Chain info))" by blast
  from Cons.IH[OF 2] obtain pss where
    pss: "list_all2 (\<lambda>atom ps. resolve C (Res_of atom) (Ana_of atom) (Ele_of atom) = Inr ps)
              atoms pss"
    "c_R info' = c_R info1 @ map fst (concat pss)"
    "c_ResName info' = c_ResName info1 @ map Res_of atoms"
    "length (c_Chain info') = length (c_Chain info1) + length atoms" by blast
  show ?case
    by (rule exI[of _ "ps # pss"]) (use ps pss in simp)
qed

lemma concat_le:
  "\<forall>ps \<in> set pss. length ps \<le> 1 \<Longrightarrow> length (concat pss) \<le> length pss"
  by (induction pss) auto

lemma concat_singletons:
  "\<forall>ps \<in> set pss. length ps \<le> 1 \<Longrightarrow> length (concat pss) = length pss \<Longrightarrow>
     pss = map (\<lambda>q. [q]) (concat pss)"
proof (induction pss)
  case Nil
  then show ?case by simp
next
  case (Cons ps pss)
  have le: "length (concat pss) \<le> length pss" using Cons.prems(1) by (simp add: concat_le)
  have "length ps \<le> 1" using Cons.prems(1) by simp
  with le Cons.prems(2) have 1: "length ps = 1" and 2: "length (concat pss) = length pss"
    by auto
  from 1 obtain q where q: "ps = [q]" by (cases ps) auto
  have "pss = map (\<lambda>q. [q]) (concat pss)" using Cons.IH Cons.prems(1) 2 by simp
  then show ?case using q by simp
qed

lemma select_map_map:
  "select (map f xs) (map g ys) = map (\<lambda>(x, y). g y) (filter (\<lambda>(x, y). f x) (zip xs ys))"
  by (simp add: select_def zip_map_map filter_map comp_def case_prod_unfold)

lemma column_final_frame_R: "column (final_frame sep tmp) ''R'' = map Num (c_R tmp)"
  by (simp add: column_def final_frame_def)

lemma not_in_mask:
  "map2 (\<lambda>a n. \<not> a \<and> \<not> n) (isin A col) (isin B col)
     = map (\<lambda>r. r \<notin> dom A \<and> r \<notin> dom B) col"
  by (simp add: isin_def zip_map_map zip_same_conv_map)

lemma partitions_R:
  assumes "partitions C df = (aa_df, nt_df, ns_df)"
  shows "column aa_df ''R'' = map Num (select (isin (AA C) (c_ResName df)) (c_R df))"
    "column nt_df ''R'' = map Num (select (isin (NT C) (c_ResName df)) (c_R df))"
    "column ns_df ''R'' = map Num (select (map (\<lambda>r. r \<notin> dom (AA C) \<and> r \<notin> dom (NT C)) (c_ResName df)) (c_R df))"
  using assms
  by (auto simp: partitions_def Let_def column_final_frame_R take_rows_def not_in_mask)

subsection \<open>Claim C2\<close>

text \<open>
  Claim C2, as amended. The resolution has three ways, and each gives exactly one
  property tuple. For a residue name that is a key of \<open>Radius\<close>: an amino acid (and
  no nucleotide) whose atom name is a key of its sub-table gets the entry under the atom
  name; a nucleotide (and no amino acid) for which the first character of the atom name
  is a key of its sub-table, and the element is one too, gets the entry under the
  element. A residue name that is no key of \<open>Radius\<close> gets the entry under the element
  in the bucket \<open>UNDEF\<close>, when there is one. Nothing is said of the other lines.
\<close>

theorem property_resolution_three_way:
  assumes "(Radius C Res = Some sub \<and> Res \<in> dom (AA C) \<and> Res \<notin> dom (NT C)
             \<and> sub Ana = Some p)
         \<or> (Radius C Res = Some sub \<and> Res \<in> dom (NT C) \<and> Res \<notin> dom (AA C)
             \<and> Ana \<noteq> [] \<and> [hd Ana] \<in> dom sub \<and> sub Ele = Some p)
         \<or> (Radius C Res = None \<and> Radius C ''UNDEF'' = Some sub \<and> sub Ele = Some p)"
  shows "resolve C Res Ana Ele = Inr [p]"
  using assms
proof (elim disjE conjE)
  assume "Radius C Res = Some sub" "Res \<in> dom (AA C)" "Res \<notin> dom (NT C)" "sub Ana = Some p"
  then show ?thesis by (simp add: resolve_def resolve_AA_def resolve_NT_def)
next
  assume a: "Radius C Res = Some sub" "Res \<in> dom (NT C)" "Res \<notin> dom (AA C)"
    "[hd Ana] \<in> dom sub" "sub Ele = Some p" and "Ana \<noteq> []"
  then obtain c r where "Ana = c # r" by (cases Ana) auto
  then show ?thesis using a by (simp add: resolve_def resolve_AA_def resolve_NT_def lookup_def)
next
  assume "Radius C Res = None" "Radius C ''UNDEF'' = Some sub" "sub Ele = Some p"
  then show ?thesis by (simp add: resolve_def lookup_def)
qed

text \<open>An amino acid atom, a nucleotide atom and an ion, one for each way.\<close>

theorem property_resolution_three_way_witness:
  "resolve ex_constants (Res_of line_CA) (Ana_of line_CA) (Ele_of line_CA)
     = Inr [(2, ''C4H1b'', 10, 20)]
   \<and> resolve ex_constants (Res_of line_N1) (Ana_of line_N1) (Ele_of line_N1)
     = Inr [(3, ''N3H0'', 12, 22)]
   \<and> resolve ex_constants (Res_of line_ZN) (Ana_of line_ZN) (Ele_of line_ZN)
     = Inr [(4, ''ZN'', 14, 24)]"
proof -
  have f1: "Res_of line_CA = ''ALA''" "Ana_of line_CA = ''CA''" "Ele_of line_CA = ''C''"
    by code_simp+
  have f2: "Res_of line_N1 = ''DA''" "Ana_of line_N1 = ''N1''" "Ele_of line_N1 = ''N''"
    by code_simp+
  have f3: "Res_of line_ZN = ''ZN''" "Ana_of line_ZN = ''ZN''" "Ele_of line_ZN = ''ZN''"
    by code_simp+
  have a: "Radius ex_constants ''ALA'' = Some [''CA'' \<mapsto> (2, ''C4H1b'', 10, 20)]
           \<and> ''ALA'' \<in> dom (AA ex_constants) \<and> ''ALA'' \<notin> dom (NT ex_constants)
           \<and> [''CA'' \<mapsto> (2, ''C4H1b'', 10, 20)] ''CA'' = Some (2, ''C4H1b'', 10, 20)"
    by (simp add: ex_constants_def)
  have b: "Radius ex_constants ''DA''
             = Some [''C'' \<mapsto> (2, ''C3H0'', 11, 21), ''N'' \<mapsto> (3, ''N3H0'', 12, 22)]
           \<and> ''DA'' \<in> dom (NT ex_constants) \<and> ''DA'' \<notin> dom (AA ex_constants)
           \<and> ''N1'' \<noteq> [] \<and> [hd ''N1''] \<in> dom [''C'' \<mapsto> (2, ''C3H0'', 11, 21), ''N'' \<mapsto> (3, ''N3H0'', 12, 22)]
           \<and> [''C'' \<mapsto> (2, ''C3H0'', 11, 21), ''N'' \<mapsto> (3, ''N3H0'', 12, 22)] ''N''
               = Some (3, ''N3H0'', 12, 22)"
    by (simp add: ex_constants_def)
  have c: "Radius ex_constants ''ZN'' = None
           \<and> Radius ex_constants ''UNDEF''
               = Some [''C'' \<mapsto> (2, ''C'', 13, 23), ''ZN'' \<mapsto> (4, ''ZN'', 14, 24)]
           \<and> [''C'' \<mapsto> (2, ''C'', 13, 23), ''ZN'' \<mapsto> (4, ''ZN'', 14, 24)] ''ZN''
               = Some (4, ''ZN'', 14, 24)"
    by (simp add: ex_constants_def)
  have 1: "resolve ex_constants ''ALA'' ''CA'' ''C'' = Inr [(2, ''C4H1b'', 10, 20)]"
    by (rule property_resolution_three_way[where sub = "[''CA'' \<mapsto> (2, ''C4H1b'', 10, 20)]"]) (use a in blast)
  have 2: "resolve ex_constants ''DA'' ''N1'' ''N'' = Inr [(3, ''N3H0'', 12, 22)]"
    by (rule property_resolution_three_way[where sub = "[''C'' \<mapsto> (2, ''C3H0'', 11, 21), ''N'' \<mapsto> (3, ''N3H0'', 12, 22)]"])
       (use b in blast)
  have 3: "resolve ex_constants ''ZN'' ''ZN'' ''ZN'' = Inr [(4, ''ZN'', 14, 24)]"
    by (rule property_resolution_three_way[where sub = "[''C'' \<mapsto> (2, ''C'', 13, 23), ''ZN'' \<mapsto> (4, ''ZN'', 14, 24)]"])
       (use c in blast)
  show ?thesis using 1 2 3 f1 f2 f3 by simp
qed

text \<open>
  Claim C2 as stated fails: the line \<open>line_XX\<close> is admitted, its residue is a
  nucleotide and the first character of its element is a key of the sub-table, but the
  test is made on the first character of the atom name, and the two tests under
  \<open>Res in Radius\<close> have no \<open>else\<close>: no tuple is produced, and building the data
  frame raises \<open>ValueError\<close>.
\<close>

theorem unresolved_nucleotide_atom:
  "load_atom_models ''1abc'' (Some [''HEADER'', line_XX]) = Inr [(- 1, [line_XX])]
   \<and> Res_of line_XX = ''DA'' \<and> Ana_of line_XX = ''XX'' \<and> Ele_of line_XX = ''C''
   \<and> ''DA'' \<in> dom (NT ex_constants)
   \<and> map_option (\<lambda>sub. sub [hd (Ele_of line_XX)]) (Radius ex_constants ''DA'')
        = Some (Some (2, ''C3H0'', 11, 21))
   \<and> resolve ex_constants (Res_of line_XX) (Ana_of line_XX) (Ele_of line_XX) = Inr []
   \<and> parse_atom_model ex_constants [line_XX] = Inl ValueError"
  by code_simp

subsection \<open>Claim C9\<close>

text \<open>
  Claim C9. When the classifier returns its three tables, and no residue name is both
  in \<open>AA\<close> and in \<open>NT\<close>, each atom line resolved exactly one property tuple, and the
  column \<open>R\<close> of each table holds, for the lines of its partition in order, the radius
  of that tuple plus \<open>Radius_H2O\<close>, added once.
\<close>

theorem radius_includes_water_probe_once:
  assumes "parse_atom_model C atom_model = Inr (aa_df, nt_df, ns_df)"
    and "dom (AA C) \<inter> dom (NT C) = {}"
  shows "\<exists>ps. length ps = length atom_model
    \<and> (\<forall>i < length atom_model.
          resolve C (Res_of (atom_model ! i)) (Ana_of (atom_model ! i)) (Ele_of (atom_model ! i))
            = Inr [ps ! i])
    \<and> column aa_df ''R'' =
         map (\<lambda>(atom, p). Num (fst p + Radius_H2O C))
           (filter (\<lambda>(atom, p). Res_of atom \<in> dom (AA C)) (zip atom_model ps))
    \<and> column nt_df ''R'' =
         map (\<lambda>(atom, p). Num (fst p + Radius_H2O C))
           (filter (\<lambda>(atom, p). Res_of atom \<in> dom (NT C)) (zip atom_model ps))
    \<and> column ns_df ''R'' =
         map (\<lambda>(atom, p). Num (fst p + Radius_H2O C))
           (filter (\<lambda>(atom, p). Res_of atom \<notin> dom (AA C) \<and> Res_of atom \<notin> dom (NT C))
              (zip atom_model ps))"
proof -
  from assms(1) obtain info where
    info: "add_atoms C atom_model empty_info = Inr info" and sl: "same_length info"
    and parts: "partitions C (add_Radius_H2O C info) = (aa_df, nt_df, ns_df)"
    by (auto simp: parse_atom_model_def atom_frame_def from_dict_def
        split: sum.splits if_splits)
  from add_atoms_Inr[OF info] obtain pss where
    res: "list_all2 (\<lambda>atom ps. resolve C (Res_of atom) (Ana_of atom) (Ele_of atom) = Inr ps)
            atom_model pss"
    and R: "c_R info = map fst (concat pss)"
    and N: "c_ResName info = map Res_of atom_model"
    and L: "length (c_Chain info) = length atom_model"
    by (auto simp: empty_info_def)
  have len: "length pss = length atom_model" using res by (simp add: list_all2_lengthD)
  have le1: "\<forall>ps \<in> set pss. length ps \<le> 1"
  proof
    fix ps assume "ps \<in> set pss"
    then obtain i where i: "i < length pss" "pss ! i = ps" by (auto simp: in_set_conv_nth)
    then have "resolve C (Res_of (atom_model ! i)) (Ana_of (atom_model ! i))
                 (Ele_of (atom_model ! i)) = Inr ps"
      using res by (auto simp: list_all2_conv_all_nth)
    then show "length ps \<le> 1" using assms(2) resolve_at_most_one by blast
  qed
  have "length (c_R info) = length (c_Chain info)" using sl by (simp add: same_length_def Let_def)
  then have "length (concat pss) = length pss" using R L len by (metis length_map)
  then have sing: "pss = map (\<lambda>q. [q]) (concat pss)" using le1 concat_singletons by blast
  define ps where "ps = concat pss"
  have 1: "length ps = length atom_model"
    using sing len unfolding ps_def by (metis length_map)
  have 2: "\<forall>i < length atom_model.
          resolve C (Res_of (atom_model ! i)) (Ana_of (atom_model ! i)) (Ele_of (atom_model ! i))
            = Inr [ps ! i]"
  proof (intro allI impI)
    fix i assume i: "i < length atom_model"
    then have "resolve C (Res_of (atom_model ! i)) (Ana_of (atom_model ! i))
                 (Ele_of (atom_model ! i)) = Inr (pss ! i)"
      using res by (auto simp: list_all2_conv_all_nth)
    moreover have "pss ! i = [ps ! i]"
      using sing i 1 unfolding ps_def by (metis nth_map)
    ultimately show "resolve C (Res_of (atom_model ! i)) (Ana_of (atom_model ! i))
                 (Ele_of (atom_model ! i)) = Inr [ps ! i]" by simp
  qed
  have Rdf: "c_R (add_Radius_H2O C info) = map (\<lambda>p. fst p + Radius_H2O C) ps"
    using R by (simp add: add_Radius_H2O_def ps_def)
  have Ndf: "c_ResName (add_Radius_H2O C info) = map Res_of atom_model"
    using N by (simp add: add_Radius_H2O_def)
  note P = partitions_R[OF parts, unfolded Rdf Ndf isin_def map_map comp_def]
  have 3: "column aa_df ''R'' =
         map (\<lambda>(atom, p). Num (fst p + Radius_H2O C))
           (filter (\<lambda>(atom, p). Res_of atom \<in> dom (AA C)) (zip atom_model ps))"
    using P(1) by (simp add: select_map_map case_prod_unfold)
  have 4: "column nt_df ''R'' =
         map (\<lambda>(atom, p). Num (fst p + Radius_H2O C))
           (filter (\<lambda>(atom, p). Res_of atom \<in> dom (NT C)) (zip atom_model ps))"
    using P(2) by (simp add: select_map_map case_prod_unfold)
  have 5: "column ns_df ''R'' =
         map (\<lambda>(atom, p). Num (fst p + Radius_H2O C))
           (filter (\<lambda>(atom, p). Res_of atom \<notin> dom (AA C) \<and> Res_of atom \<notin> dom (NT C))
              (zip atom_model ps))"
    using P(3) by (simp add: select_map_map case_prod_unfold)
  show ?thesis using 1 2 3 4 5 by blast
qed

text \<open>The table of the one line \<open>line_CA\<close>: the radius 2 of the table becomes 3.\<close>

theorem radius_includes_water_probe_once_witness:
  "parse_atom_model ex_constants [line_CA] = Inr (ex_aa_df, ex_empty_df, ex_empty_df)
   \<and> dom (AA ex_constants) \<inter> dom (NT ex_constants) = {}
   \<and> resolve ex_constants (Res_of line_CA) (Ana_of line_CA) (Ele_of line_CA)
        = Inr [(2, ''C4H1b'', 10, 20)]
   \<and> column ex_aa_df ''R'' = [Num (2 + Radius_H2O ex_constants)]"
proof -
  have h1: "parse_atom_model ex_constants [line_CA] = Inr (ex_aa_df, ex_empty_df, ex_empty_df)"
    by code_simp
  have h2: "dom (AA ex_constants) \<inter> dom (NT ex_constants) = {}"
    by (simp add: ex_constants_def)
  have r: "resolve ex_constants (Res_of line_CA) (Ana_of line_CA) (Ele_of line_CA)
        = Inr [(2, ''C4H1b'', 10, 20)]" by code_simp
  have m: "Res_of line_CA \<in> dom (AA ex_constants)" by code_simp
  from radius_includes_water_probe_once[OF h1 h2] obtain ps where
    n: "length ps = length [line_CA]"
    and e: "\<forall>i < length [line_CA].
          resolve ex_constants (Res_of ([line_CA] ! i)) (Ana_of ([line_CA] ! i))
            (Ele_of ([line_CA] ! i)) = Inr [ps ! i]"
    and c: "column ex_aa_df ''R'' =
         map (\<lambda>(atom, p). Num (fst p + Radius_H2O ex_constants))
           (filter (\<lambda>(atom, p). Res_of atom \<in> dom (AA ex_constants)) (zip [line_CA] ps))"
    by blast
  from n obtain p where p: "ps = [p]" by (cases ps) auto
  from e p r have "p = (2, ''C4H1b'', 10, 20)" by simp
  with c p m have "column ex_aa_df ''R'' = [Num (2 + Radius_H2O ex_constants)]" by simp
  then show ?thesis using h1 h2 r by blast
qed

section \<open>Properties of the orchestrator\<close>


lemma dihedral_step_events:
  "dihedral_step K a name a_model aa_df = (ev_d, r) \<Longrightarrow>
     ev_d = [] \<or> ev_d = [Call_dihedral_angle name (concat a_model)]"
  by (auto simp: dihedral_step_def split: if_splits)

subsection \<open>Claim C8\<close>

text \<open>The line of the \<open>except\<close> clause is printed by the loop only, when a model has
  raised; \<open>arip_analyze\<close> prints nothing but the line about memory.\<close>

lemma dihedral_step_no_Cannot_analyze:
  "dihedral_step K a name a_model aa_df = (evs, r) \<Longrightarrow> Print (Cannot_analyze n) \<notin> set evs"
  by (auto simp: dihedral_step_def split: if_splits)

lemma after_volume_no_Cannot_analyze:
  "after_volume K a idx name d atom_df c v = (evs, r) \<Longrightarrow> Print (Cannot_analyze n) \<notin> set evs"
  by (auto simp: after_volume_def split: if_splits sum.splits)

lemma arip_analyze_no_Cannot_analyze:
  "Print (Cannot_analyze n) \<notin> set (fst (arip_analyze C K a idx name a_model))"
  by (auto simp: arip_analyze_def split: sum.splits prod.splits
      dest: dihedral_step_no_Cannot_analyze after_volume_no_Cannot_analyze)

lemma arip_loop_aborted:
  "Print (Cannot_analyze name) \<in> set (arip_loop C K a name pre) \<Longrightarrow>
     arip_loop C K a name (pre @ rest) = arip_loop C K a name pre"
proof (induction pre)
  case Nil
  then show ?case by simp
next
  case (Cons m pre)
  obtain idx a_model where m: "m = (idx, a_model)" by (cases m)
  show ?case
  proof (cases "a_model = []")
    case True
    then show ?thesis using Cons m by simp
  next
    case False
    obtain evs r where r: "arip_analyze C K a idx name a_model = (evs, r)"
      by (cases "arip_analyze C K a idx name a_model")
    have evs: "Print (Cannot_analyze name) \<notin> set evs"
      using arip_analyze_no_Cannot_analyze[of name C K a idx name a_model] r by simp
    show ?thesis
    proof (cases r)
      case (Inl e)
      then show ?thesis using m False r by simp
    next
      case (Inr res)
      then show ?thesis using Cons m False r evs by (simp split: if_splits)
    qed
  qed
qed

lemma arip_loop_append:
  "Print (Cannot_analyze name) \<notin> set (arip_loop C K a name pre) \<Longrightarrow>
     arip_loop C K a name (pre @ rest) = arip_loop C K a name pre @ arip_loop C K a name rest"
proof (induction pre)
  case Nil
  then show ?case by simp
next
  case (Cons m pre)
  obtain idx a_model where m: "m = (idx, a_model)" by (cases m)
  show ?case
  proof (cases "a_model = []")
    case True
    then show ?thesis using Cons m by simp
  next
    case False
    obtain evs r where r: "arip_analyze C K a idx name a_model = (evs, r)"
      by (cases "arip_analyze C K a idx name a_model")
    show ?thesis
    proof (cases r)
      case (Inl e)
      then show ?thesis using Cons.prems m False r by simp
    next
      case (Inr res)
      then show ?thesis using Cons m False r by (simp split: if_splits)
    qed
  qed
qed

text \<open>
  Claim C8, as amended. Let a model without admissible lines come after the models
  \<open>pre\<close> of a file. When none of these has raised, the loop reaches the model: all
  that it does for this model is to print the line that says so, which names the file
  and, for an explicit model, its index, and it goes on with the models that remain.
  When one of them has raised, the loop has ended with the line of the \<open>except\<close>
  clause and nothing is done or printed for the model. In both cases no call of the
  classifier or of a collaborator is made for it.
\<close>

theorem empty_model_logged_and_skipped:
  "arip_loop C K a name (pre @ (idx, []) # rest) =
     (if Print (Cannot_analyze name) \<in> set (arip_loop C K a name pre)
      then arip_loop C K a name pre
      else arip_loop C K a name pre
             @ Print (Skip_no_atoms (if idx = - 1 then name else name @ ''_MODEL_'' @ str_int idx))
             # arip_loop C K a name rest)"
proof (cases "Print (Cannot_analyze name) \<in> set (arip_loop C K a name pre)")
  case True
  then show ?thesis using arip_loop_aborted[of name C K a pre "(idx, []) # rest"] by simp
next
  case False
  then show ?thesis
    using arip_loop_append[of name C K a pre "(idx, []) # rest"]
    by (simp add: model_label_def)
qed

text \<open>A model that is analyzed to its report, then an empty one.\<close>

theorem empty_model_logged_and_skipped_witness:
  "arip_loop ex_constants (ex_collaborators False False) ex_args ''1abc''
     [(1, [line_CA]), (2, [])] =
     [Call_parse_atom_model [line_CA], Call_dihedral_angle ''1abc'' line_CA,
      Call_dotarray_volume ex_aa_df False 1,
      Call_dotarray_surface ''ref'' ex_contact_df 1,
      Call_csv_sort 1 ''1abc'' (Some 7) 9 5 ''out'' [3, 4] False,
      Print (Run_OK ''1abc_MODEL_1''),
      Print (Skip_no_atoms ''1abc_MODEL_2'')]"
proof -
  let ?K = "ex_collaborators False False"
  have p: "arip_loop ex_constants ?K ex_args ''1abc'' [(1, [line_CA])] =
     [Call_parse_atom_model [line_CA], Call_dihedral_angle ''1abc'' line_CA,
      Call_dotarray_volume ex_aa_df False 1,
      Call_dotarray_surface ''ref'' ex_contact_df 1,
      Call_csv_sort 1 ''1abc'' (Some 7) 9 5 ''out'' [3, 4] False,
      Print (Run_OK ''1abc_MODEL_1'')]"
    by code_simp
  have e: "''1abc'' @ ''_MODEL_'' @ str_int 2 = ''1abc_MODEL_2''" by code_simp
  have r: "arip_loop ex_constants ?K ex_args ''1abc'' [] = []" by simp
  from empty_model_logged_and_skipped[of ex_constants ?K ex_args "''1abc''"
      "[(1, [line_CA])]" 2 "[]"]
  show ?thesis unfolding p r using e by simp
qed

text \<open>
  Claim C8 as stated fails: the \<open>try\<close> encloses the whole loop, so when the first
  model raises (here in the classifier), the loop ends and no skip is logged for the
  empty model that follows.
\<close>

theorem empty_model_after_failure_not_logged:
  "arip_loop ex_constants (ex_collaborators False False) ex_args ''1abc''
     [(1, [line_XX]), (2, [])] =
     [Call_parse_atom_model [line_XX], Print (Cannot_analyze ''1abc'')]"
  by code_simp

subsection \<open>Claim C7\<close>

text \<open>
  Claim C7. When the classifier and (if it is called) the dihedral collaborator have
  returned and the volume collaborator returns a pair of two false values,
  \<open>arip_analyze\<close> prints the line about insufficient memory and returns the pair
  \<open>(-1, -1)\<close> without raising; after the call of the volume collaborator it makes
  no call, so neither the surface collaborator nor the report is reached; and the loop
  of \<open>arip_main\<close> goes on with the models that remain.
\<close>

theorem degenerate_volume_short_circuits:
  assumes "a_model \<noteq> []"
    and "parse_atom_model C a_model = Inr (aa_df, nt_df, ns_df)"
    and "dihedral_step K a name a_model aa_df = (ev_d, Inr dihedral_angle)"
    and "pdb_dotarray_volume K (concat_frames aa_df nt_df ns_df) (density a) (interval a)
           (disable_print a) = Inr (atom_df, contact_dict, volume)"
    and "\<not> truthy K contact_dict" and "\<not> truthy K volume"
  shows "arip_analyze C K a idx name a_model =
           (Call_parse_atom_model a_model # ev_d
              @ [Call_dotarray_volume (concat_frames aa_df nt_df ns_df) (density a) (interval a),
                 Print (Skip_memory name)],
            Inr (Sentinel (- 1) (- 1)))
         \<and> (ev_d = [] \<or> ev_d = [Call_dihedral_angle name (concat a_model)])
         \<and> arip_loop C K a name ((idx, a_model) # rest) =
             Call_parse_atom_model a_model # ev_d
              @ [Call_dotarray_volume (concat_frames aa_df nt_df ns_df) (density a) (interval a),
                 Print (Skip_memory name)]
              @ arip_loop C K a name rest"
proof -
  have 1: "arip_analyze C K a idx name a_model =
           (Call_parse_atom_model a_model # ev_d
              @ [Call_dotarray_volume (concat_frames aa_df nt_df ns_df) (density a) (interval a),
                 Print (Skip_memory name)],
            Inr (Sentinel (- 1) (- 1)))"
    using assms(2-6) by (simp add: arip_analyze_def after_volume_def)
  have 2: "ev_d = [] \<or> ev_d = [Call_dihedral_angle name (concat a_model)]"
    using assms(3) by (rule dihedral_step_events)
  have 3: "arip_loop C K a name ((idx, a_model) # rest) =
             Call_parse_atom_model a_model # ev_d
              @ [Call_dotarray_volume (concat_frames aa_df nt_df ns_df) (density a) (interval a),
                 Print (Skip_memory name)]
              @ arip_loop C K a name rest"
    using assms(1) by (simp add: 1 timer_s_def is_float_def)
  show ?thesis using 1 2 3 by blast
qed

theorem degenerate_volume_short_circuits_witness:
  "arip_analyze ex_constants (ex_collaborators False True) ex_args 1 ''1abc'' [line_CA] =
     ([Call_parse_atom_model [line_CA], Call_dihedral_angle ''1abc'' line_CA,
       Call_dotarray_volume ex_aa_df False 1, Print (Skip_memory ''1abc'')],
      Inr (Sentinel (- 1) (- 1)))
   \<and> arip_loop ex_constants (ex_collaborators False True) ex_args ''1abc''
         [(1, [line_CA]), (2, [])] =
     [Call_parse_atom_model [line_CA], Call_dihedral_angle ''1abc'' line_CA,
      Call_dotarray_volume ex_aa_df False 1, Print (Skip_memory ''1abc''),
      Print (Skip_no_atoms ''1abc_MODEL_2'')]"
proof -
  let ?K = "ex_collaborators False True"
  have h1: "[line_CA] \<noteq> []" by simp
  have h2: "parse_atom_model ex_constants [line_CA] = Inr (ex_aa_df, ex_empty_df, ex_empty_df)"
    by code_simp
  have h3: "dihedral_step ?K ex_args ''1abc'' [line_CA] ex_aa_df
              = ([Call_dihedral_angle ''1abc'' line_CA], Inr (Some 7))"
    by (simp add: dihedral_step_def ex_collaborators_def ex_aa_df_def frame_empty_def)
  have h4: "pdb_dotarray_volume ?K (concat_frames ex_aa_df ex_empty_df ex_empty_df)
              (density ex_args) (interval ex_args) (disable_print ex_args)
            = Inr ((''Name'', [Str ''A1-A'']) # ex_aa_df, 0, 0)"
    by code_simp
  have h5: "\<not> truthy ?K 0" by (simp add: ex_collaborators_def)
  have c: "concat_frames ex_aa_df ex_empty_df ex_empty_df = ex_aa_df" by code_simp
  have r: "arip_loop ex_constants ?K ex_args ''1abc'' [(2, [])]
             = [Print (Skip_no_atoms ''1abc_MODEL_2'')]" by code_simp
  from degenerate_volume_short_circuits[OF h1 h2 h3 h4 h5 h5, of 1 "[(2, [])]"]
  show ?thesis using c r by (simp add: ex_args_def del: arip_loop.simps)
qed

subsection \<open>Claim C1\<close>



end
